theory Spec2Isabelle
  imports Main "HOL-Library.Finite_Map" "HOL-Library.Multiset"
begin

section \<open>Identifiers, statuses and errors\<close>

text \<open>
  \<^verbatim>\<open>domain.SessionID\<close>, \<^verbatim>\<open>domain.Status\<close> and \<^verbatim>\<open>services.ConnectionStatus\<close> are
  Go string types; the status constants are the string literals of the source.
  Points in time are natural numbers.
\<close>

type_synonym SessionID = string
type_synonym Status = string
type_synonym ConnectionStatus = string
type_synonym Time = nat

definition domain_StatusDisconnected :: Status where
  "domain_StatusDisconnected = ''disconnected''"
definition domain_StatusConnecting :: Status where
  "domain_StatusConnecting = ''connecting''"
definition domain_StatusConnected :: Status where
  "domain_StatusConnected = ''connected''"
definition domain_StatusError :: Status where
  "domain_StatusError = ''error''"

definition StatusDisconnected :: ConnectionStatus where
  "StatusDisconnected = ''disconnected''"
definition StatusConnecting :: ConnectionStatus where
  "StatusConnecting = ''connecting''"
definition StatusConnected :: ConnectionStatus where
  "StatusConnected = ''connected''"
definition StatusError :: ConnectionStatus where
  "StatusError = ''error''"

text \<open>
  Go \<^verbatim>\<open>error\<close> values. \<open>ErrExternal\<close> stands for an error handed back by a library
  outside the repository (database driver, QR encoder, protocol client);
  \<open>Wrap msg e\<close> is \<^verbatim>\<open>fmt.Errorf("msg: %w", e)\<close>. A function returning \<^verbatim>\<open>error\<close>
  returns \<open>error option\<close> (\<open>None\<close> is \<^verbatim>\<open>nil\<close>); a function returning a value and an
  error returns \<open>error + 'a\<close>.
\<close>

datatype error =
    ErrSessionNotFound SessionID
  | ErrExternal
  | ErrMaxSessions int
  | ErrMaxDevices int
  | ErrNoSessionClient SessionID
  | ErrAlreadyConnected SessionID
  | ErrQRBeingGenerated
  | Wrap string error

section \<open>Data model\<close>

text \<open>\<^verbatim>\<open>domain.Session\<close>, the row of table \<^verbatim>\<open>sessions\<close>.\<close>

record Session =
  ID :: SessionID
  Name :: string
  Status :: Status
  WebhookURL :: string
  WAJID :: string
  QRCode :: string
  Events :: string
  ProxyURL :: string
  DeviceName :: string
  IsActive :: bool
  CreatedAt :: Time
  UpdatedAt :: Time
  LastConnectedAt :: "Time option"

text \<open>
  \<^verbatim>\<open>store.Device\<close> of the protocol library: only its \<^verbatim>\<open>ID\<close> (the JID, \<^verbatim>\<open>nil\<close> before
  pairing) is read by the manager.
\<close>

datatype Device = NewDevice (DeviceID: "string option")

text \<open>
  \<^verbatim>\<open>SessionClient\<close>. \<^verbatim>\<open>Client\<close> and \<^verbatim>\<open>Device\<close> are pointers (\<open>None\<close> is \<^verbatim>\<open>nil\<close>); the
  client is a handle on an object of the protocol library, the kill channel a
  reference to a buffered channel of capacity 1 whose buffer lives in \<open>chans\<close>.
\<close>

record SessionClient =
  Client :: "nat option"
  Device :: "Device option"
  KillChannel :: nat
  Status :: ConnectionStatus
  LastSeen :: Time

text \<open>What the manager does to the outside world, in program order.\<close>

datatype Level = LDebug | LInfo | LWarn | LError

datatype Task =
    HandleSessionConnection SessionID SessionClient
  | HandleQRCodeGeneration SessionID SessionClient
  | StatusWrite SessionID ConnectionStatus
  | StartSessionTask SessionID
  | ConnectOnStartup

datatype Action =
    MutexLock | MutexUnlock | MutexRLock | MutexRUnlock
  | DBSelectByID SessionID
  | DBSelectByStatus Status
  | DBUpdateStatus SessionID Status
  | DBUpdateWAJID SessionID string
  | DBUpdateQRCode SessionID string
  | ContainerGetDevice string
  | NewClient nat
  | ClientAddEventHandler nat
  | ClientGetQRChannel nat
  | ClientConnect nat
  | ClientDisconnect nat
  | PrintQRCode string
  | Go Task
  | Sleep nat
  | Log Level string

text \<open>
  \<^verbatim>\<open>WhatsAppStoreManager\<close>: the device cache and its limit. \<open>validJID\<close> says
  whether the library's \<^verbatim>\<open>types.ParseJID\<close> accepts a string. \<open>container\<close> is the
  library's device store as \<^verbatim>\<open>restoreDevice\<close> sees it: for a JID string, the
  lookup error, or the stored device (\<^verbatim>\<open>nil\<close> when there is none).
\<close>

record WhatsAppStoreManager =
  devices :: "(SessionID, Device) fmap"
  maxDevices :: int
  validJID :: "string \<Rightarrow> bool"
  container :: "string \<Rightarrow> error + Device option"

text \<open>
  \<^verbatim>\<open>sessionRepository\<close> over the database: the table, and for the statements to
  come whether the driver reports an error (\<open>True\<close>); a statement past the end
  of \<open>faults\<close> succeeds.
\<close>

record sessionRepository =
  rows :: "Session list"
  faults :: "bool list"

text \<open>
  \<^verbatim>\<open>MultiSessionManager\<close> (\<open>sessions\<close>, \<open>storeManager\<close>, \<open>sessionRepo\<close>,
  \<open>maxSessions\<close>) together with the runtime around it: the channel buffers,
  the next free object reference, the wall clock read by \<^verbatim>\<open>time.Now()\<close>, and
  the trace of actions performed so far. The mutex appears as the actions
  \<open>MutexLock\<close> ... \<open>MutexRUnlock\<close> of the trace.
\<close>

record MultiSessionManager =
  sessions :: "(SessionID, SessionClient) fmap"
  storeManager :: WhatsAppStoreManager
  sessionRepo :: sessionRepository
  maxSessions :: int
  chans :: "(nat, bool list) fmap"
  nextRef :: nat
  clock :: Time
  trace :: "Action list"

definition emit :: "Action list \<Rightarrow> MultiSessionManager \<Rightarrow> MultiSessionManager" where
  "emit acts w = w\<lparr>trace := trace w @ acts\<rparr>"

text \<open>\<^verbatim>\<open>select { case ch <- v: default: }\<close> on a channel of capacity 1.\<close>

definition chanTrySend :: "nat \<Rightarrow> bool \<Rightarrow> MultiSessionManager \<Rightarrow> MultiSessionManager" where
  "chanTrySend ch v w =
     (case fmlookup (chans w) ch of
        None \<Rightarrow> w
      | Some buf \<Rightarrow> if length buf < 1 then w\<lparr>chans := fmupd ch (buf @ [v]) (chans w)\<rparr> else w)"

section \<open>Session repository\<close>

text \<open>One statement sent to the database: recorded, and failed if the driver says so.\<close>

definition dbExec :: "Action \<Rightarrow> MultiSessionManager \<Rightarrow> bool \<times> MultiSessionManager" where
  "dbExec stmt w =
     (let r = sessionRepo w in
      case faults r of
        [] \<Rightarrow> (False, emit [stmt] w)
      | f # fs \<Rightarrow> (f, emit [stmt] (w\<lparr>sessionRepo := r\<lparr>faults := fs\<rparr>\<rparr>)))"

definition GetByID ::
  "MultiSessionManager \<Rightarrow> SessionID \<Rightarrow> (error + Session) \<times> MultiSessionManager" where
  "GetByID w sid =
     (let (failed, w1) = dbExec (DBSelectByID sid) w in
      if failed then
        (Inl (Wrap ''failed to get session'' ErrExternal),
         emit [Log LError ''Failed to get session by ID''] w1)
      else
        (case find (\<lambda>s. Session.ID s = sid) (rows (sessionRepo w1)) of
           None \<Rightarrow> (Inl (ErrSessionNotFound sid), w1)
         | Some s \<Rightarrow> (Inr s, w1)))"

text \<open>
  \<^verbatim>\<open>ORDER BY created_at DESC\<close>; the order among rows of equal \<^verbatim>\<open>created_at\<close> is the
  database's choice, here that of the stable sort.
\<close>

definition GetByStatus ::
  "MultiSessionManager \<Rightarrow> Status \<Rightarrow> (error + Session list) \<times> MultiSessionManager" where
  "GetByStatus w status =
     (let (failed, w1) = dbExec (DBSelectByStatus status) w in
      if failed then
        (Inl (Wrap ''failed to get sessions by status'' ErrExternal),
         emit [Log LError ''Failed to get sessions by status''] w1)
      else
        (Inr (rev (sort_key CreatedAt
                (filter (\<lambda>s. Session.Status s = status) (rows (sessionRepo w1))))), w1))"

definition GetConnectedSessions ::
  "MultiSessionManager \<Rightarrow> (error + Session list) \<times> MultiSessionManager" where
  "GetConnectedSessions w = GetByStatus w domain_StatusConnected"

text \<open>
  The three targeted updates: \<^verbatim>\<open>UPDATE sessions SET col = ?, updated_at = NOW()
  WHERE id = ?\<close>, an error when the statement fails, \<^verbatim>\<open>ErrSessionNotFound\<close> when
  no row was affected. (The driver's \<^verbatim>\<open>RowsAffected\<close> is taken to answer; its
  error branch only hands the error on.)
\<close>

definition setRows ::
  "(Session \<Rightarrow> Session) \<Rightarrow> SessionID \<Rightarrow> MultiSessionManager \<Rightarrow> MultiSessionManager" where
  "setRows f sid w =
     w\<lparr>sessionRepo := (sessionRepo w)\<lparr>rows :=
          map (\<lambda>s. if Session.ID s = sid then (f s)\<lparr>UpdatedAt := clock w\<rparr> else s)
              (rows (sessionRepo w))\<rparr>\<rparr>"

definition rowsAffected :: "MultiSessionManager \<Rightarrow> SessionID \<Rightarrow> nat" where
  "rowsAffected w sid = length (filter (\<lambda>s. Session.ID s = sid) (rows (sessionRepo w)))"

definition UpdateStatus ::
  "MultiSessionManager \<Rightarrow> SessionID \<Rightarrow> Status \<Rightarrow> error option \<times> MultiSessionManager" where
  "UpdateStatus w sid status =
     (let (failed, w1) = dbExec (DBUpdateStatus sid status) w in
      if failed then
        (Some (Wrap ''failed to update session status'' ErrExternal),
         emit [Log LError ''Failed to update session status''] w1)
      else if rowsAffected w1 sid = 0 then (Some (ErrSessionNotFound sid), w1)
      else (None, emit [Log LInfo ''Session status updated successfully'']
                    (setRows (\<lambda>s. s\<lparr>Session.Status := status\<rparr>) sid w1)))"


definition SetQRCode ::
  "MultiSessionManager \<Rightarrow> SessionID \<Rightarrow> string \<Rightarrow> error option \<times> MultiSessionManager" where
  "SetQRCode w sid qrCode =
     (let (failed, w1) = dbExec (DBUpdateQRCode sid qrCode) w in
      if failed then
        (Some (Wrap ''failed to set QR code'' ErrExternal),
         emit [Log LError ''Failed to set QR code''] w1)
      else if rowsAffected w1 sid = 0 then (Some (ErrSessionNotFound sid), w1)
      else (None, emit [Log LInfo ''QR code updated successfully'']
                    (setRows (\<lambda>s. s\<lparr>QRCode := qrCode\<rparr>) sid w1)))"

section \<open>Device store\<close>

text \<open>
  \<^verbatim>\<open>GetOrCreateDevice\<close> of the store manager, which has a mutex of its own (not
  the registry's, and not in the trace): the cached device, or an error at the
  device limit, or the device restored for the JID, or a new one.
\<close>

definition restoreDevice ::
  "MultiSessionManager \<Rightarrow> string \<Rightarrow> (error + Device option) \<times> MultiSessionManager" where
  "restoreDevice w jid =
     (if \<not> validJID (storeManager w) jid then
        (Inl (Wrap ''failed to parse JID'' ErrExternal), w)
      else
        (case container (storeManager w) jid of
           Inl err \<Rightarrow>
             (Inl (Wrap ''failed to get device for JID'' err), emit [ContainerGetDevice jid] w)
         | Inr d \<Rightarrow> (Inr d, emit [ContainerGetDevice jid] w)))"

definition GetOrCreateDevice ::
  "MultiSessionManager \<Rightarrow> SessionID \<Rightarrow> string \<Rightarrow> (error + Device) \<times> MultiSessionManager" where
  "GetOrCreateDevice w sid jid =
     (case fmlookup (devices (storeManager w)) sid of
        Some device \<Rightarrow> (Inr device, emit [Log LDebug ''Device found in cache''] w)
      | None \<Rightarrow>
          if int (fcard (fmdom (devices (storeManager w)))) \<ge> maxDevices (storeManager w) then
            (Inl (ErrMaxDevices (maxDevices (storeManager w))), w)
          else
            let (restored, w1) =
                  (if jid \<noteq> [] then
                     (case restoreDevice w jid of
                        (Inl err, w') \<Rightarrow>
                          (None, emit [Log LWarn ''Failed to restore device, creating new one''] w')
                      | (Inr d, w') \<Rightarrow> (d, w'))
                   else (None, w));
                (device, w2) =
                  (case restored of
                     None \<Rightarrow> (NewDevice None, emit [Log LInfo ''Created new WhatsApp device''] w1)
                   | Some d \<Rightarrow> (d, emit [Log LInfo ''Restored existing WhatsApp device''] w1))
            in (Inr device,
                w2\<lparr>storeManager := (storeManager w2)\<lparr>devices :=
                      fmupd sid device (devices (storeManager w2))\<rparr>\<rparr>))"

section \<open>Session registry\<close>

text \<open>\<^verbatim>\<open>cleanupSessionUnsafe\<close>: called with the mutex locked.\<close>

definition cleanupSessionUnsafe ::
  "MultiSessionManager \<Rightarrow> SessionID \<Rightarrow> error option \<times> MultiSessionManager" where
  "cleanupSessionUnsafe w sid =
     (case fmlookup (sessions w) sid of
        None \<Rightarrow> (None, w)
      | Some sessionClient \<Rightarrow>
          let w1 = chanTrySend (KillChannel sessionClient) True w;
              w2 = (case Client sessionClient of
                      None \<Rightarrow> w1
                    | Some c \<Rightarrow> emit [ClientDisconnect c] w1);
              w3 = w2\<lparr>sessions := fmdrop sid (sessions w2)\<rparr>
          in (None, emit [Log LInfo ''Session cleaned up''] w3))"

text \<open>
  \<^verbatim>\<open>StartSession\<close> from the session-limit check on: load the row, get the device,
  create client and kill channel, register the worker and start its goroutine.
\<close>

definition StartSession_register ::
  "MultiSessionManager \<Rightarrow> SessionID \<Rightarrow> error option \<times> MultiSessionManager" where
  "StartSession_register w sid =
     (if int (fcard (fmdom (sessions w))) \<ge> maxSessions w then
        (Some (ErrMaxSessions (maxSessions w)), w)
      else
        (case GetByID w sid of
           (Inl err, w1) \<Rightarrow> (Some (Wrap ''failed to get session from database'' err), w1)
         | (Inr session, w1) \<Rightarrow>
             (case GetOrCreateDevice w1 sid (WAJID session) of
                (Inl err, w2) \<Rightarrow> (Some (Wrap ''failed to get or create device'' err), w2)
              | (Inr device, w2) \<Rightarrow>
                  let client = nextRef w2;
                      kill = nextRef w2 + 1;
                      sessionClient =
                        \<lparr>Client = Some client, Device = Some device, KillChannel = kill,
                         SessionClient.Status = StatusDisconnected, LastSeen = clock w2\<rparr>;
                      w3 = w2\<lparr>nextRef := nextRef w2 + 2,
                              chans := fmupd kill [] (chans w2),
                              sessions := fmupd sid sessionClient (sessions w2)\<rparr>
                  in (None, emit [NewClient client,
                                  Go (HandleSessionConnection sid sessionClient),
                                  Log LInfo ''Session started''] w3))))"

text \<open>
  The body of \<^verbatim>\<open>StartSession\<close>: a connected worker is left alone, any other
  registered worker is cleaned up first.
\<close>

definition StartSession_locked ::
  "MultiSessionManager \<Rightarrow> SessionID \<Rightarrow> error option \<times> MultiSessionManager" where
  "StartSession_locked w sid =
     (case fmlookup (sessions w) sid of
        Some client \<Rightarrow>
          if SessionClient.Status client = StatusConnected then
            (None, emit [Log LInfo ''Session already connected''] w)
          else StartSession_register (snd (cleanupSessionUnsafe w sid)) sid
      | None \<Rightarrow> StartSession_register w sid)"

text \<open>\<^verbatim>\<open>msm.mutex.Lock(); defer msm.mutex.Unlock()\<close> around the body.\<close>

definition StartSession ::
  "MultiSessionManager \<Rightarrow> SessionID \<Rightarrow> error option \<times> MultiSessionManager" where
  "StartSession w sid =
     (let (r, w1) = StartSession_locked (emit [MutexLock] w) sid
      in (r, emit [MutexUnlock] w1))"

definition StopSession ::
  "MultiSessionManager \<Rightarrow> SessionID \<Rightarrow> error option \<times> MultiSessionManager" where
  "StopSession w sid =
     (let (r, w1) = cleanupSessionUnsafe (emit [MutexLock] w) sid
      in (r, emit [MutexUnlock] w1))"

text \<open>The read-only accessors, each under the shared lock.\<close>

definition GetSessionStatus ::
  "MultiSessionManager \<Rightarrow> SessionID \<Rightarrow> ConnectionStatus \<times> MultiSessionManager" where
  "GetSessionStatus w sid =
     (case fmlookup (sessions w) sid of
        Some client \<Rightarrow> (SessionClient.Status client, emit [MutexRLock, MutexRUnlock] w)
      | None \<Rightarrow> (StatusDisconnected, emit [MutexRLock, MutexRUnlock] w))"

definition GetSessionCount :: "MultiSessionManager \<Rightarrow> int \<times> MultiSessionManager" where
  "GetSessionCount w = (int (fcard (fmdom (sessions w))), emit [MutexRLock, MutexRUnlock] w)"

section \<open>Status synchronisation\<close>

text \<open>
  \<^verbatim>\<open>updateSessionStatus\<close>: under the mutex, set status and last-seen time of the
  registered worker and start the goroutine that writes the status to the
  database; nothing happens for an ID that is not registered.
\<close>

definition updateSessionStatus ::
  "MultiSessionManager \<Rightarrow> SessionID \<Rightarrow> ConnectionStatus \<Rightarrow> MultiSessionManager" where
  "updateSessionStatus w sid status =
     (let w1 = emit [MutexLock] w;
          w2 = (case fmlookup (sessions w1) sid of
                  None \<Rightarrow> w1
                | Some sessionClient \<Rightarrow>
                    emit [Go (StatusWrite sid status)]
                      (w1\<lparr>sessions :=
                            fmupd sid
                              (sessionClient\<lparr>SessionClient.Status := status,
                                             LastSeen := clock w1\<rparr>)
                              (sessions w1)\<rparr>))
      in emit [MutexUnlock] w2)"

definition toDomainStatus :: "ConnectionStatus \<Rightarrow> Status" where
  "toDomainStatus status =
     (if status = StatusDisconnected then domain_StatusDisconnected
      else if status = StatusConnecting then domain_StatusConnecting
      else if status = StatusConnected then domain_StatusConnected
      else if status = StatusError then domain_StatusError
      else domain_StatusDisconnected)"

text \<open>
  The body of the goroutine started by \<^verbatim>\<open>updateSessionStatus\<close>. The 5 second
  deadline of its context shows as a failed statement.
\<close>

definition statusWrite ::
  "MultiSessionManager \<Rightarrow> SessionID \<Rightarrow> ConnectionStatus \<Rightarrow> MultiSessionManager" where
  "statusWrite w sid status =
     (case UpdateStatus w sid (toDomainStatus status) of
        (Some err, w1) \<Rightarrow> emit [Log LError ''Failed to update session status in database''] w1
      | (None, w1) \<Rightarrow> emit [Log LInfo ''Session status updated in database''] w1)"

section \<open>Startup reconnection\<close>

fun startupLoop ::
  "Session list \<Rightarrow> MultiSessionManager \<Rightarrow> nat \<Rightarrow> MultiSessionManager \<times> nat" where
  "startupLoop [] w connectedCount = (w, connectedCount)"
| "startupLoop (session # rest) w connectedCount =
     (if Session.Status session = domain_StatusConnected \<and> WAJID session \<noteq> [] then
        startupLoop rest
          (emit [Log LInfo ''Reconnecting session on startup'',
                 Go (StartSessionTask (Session.ID session)),
                 Sleep 500] w)
          (connectedCount + 1)
      else startupLoop rest w connectedCount)"

definition connectOnStartup :: "MultiSessionManager \<Rightarrow> MultiSessionManager" where
  "connectOnStartup w =
     (case GetConnectedSessions (emit [Sleep 2000] w) of
        (Inl err, w1) \<Rightarrow> emit [Log LError ''Failed to get sessions for startup reconnection''] w1
      | (Inr connected, w1) \<Rightarrow>
          let (w2, connectedCount) = startupLoop connected w1 0 in
          if connectedCount > 0 then emit [Log LInfo ''Startup reconnection completed''] w2
          else emit [Log LInfo ''No sessions to reconnect on startup''] w2)"

text \<open>The goroutine started for each session: \<^verbatim>\<open>StartSession\<close>, an error only logged.\<close>

definition startSessionTask :: "MultiSessionManager \<Rightarrow> SessionID \<Rightarrow> MultiSessionManager" where
  "startSessionTask w sid =
     (case StartSession w sid of
        (Some err, w1) \<Rightarrow> emit [Log LError ''Failed to reconnect session on startup''] w1
      | (None, w1) \<Rightarrow> w1)"

text \<open>
  The \<^verbatim>\<open>StartSession\<close> goroutines among \<open>ts\<close>, run one after the other in the order
  they were started (each runs under the registry's mutex from start to end).
\<close>

fun runStartSessionTasks :: "Task list \<Rightarrow> MultiSessionManager \<Rightarrow> MultiSessionManager" where
  "runStartSessionTasks [] w = w"
| "runStartSessionTasks (StartSessionTask sid # ts) w =
     runStartSessionTasks ts (startSessionTask w sid)"
| "runStartSessionTasks (t # ts) w = runStartSessionTasks ts w"

definition NewMultiSessionManager ::
  "WhatsAppStoreManager \<Rightarrow> sessionRepository \<Rightarrow> Time \<Rightarrow> MultiSessionManager" where
  "NewMultiSessionManager sm repo now =
     \<lparr>sessions = fmempty, storeManager = sm, sessionRepo = repo, maxSessions = 50,
      chans = fmempty, nextRef = 0, clock = now, trace = [Go ConnectOnStartup]\<rparr>"

section \<open>Pairing by QR code\<close>

text \<open>
  The protocol client and the QR encoder as one worker meets them:
  what \<^verbatim>\<open>GetQRChannel\<close> returns (an error, or the items the channel will deliver
  and whether it is closed after them), what \<^verbatim>\<open>Connect\<close> does (returns an error
  or \<^verbatim>\<open>nil\<close>, or panics), and the base64 text of the PNG that \<^verbatim>\<open>qrcode.Encode\<close>
  makes of a code.
\<close>

datatype 'a outcome = Returns 'a | Panics

record QRChannelItem =
  Event :: string
  Code :: string

record ClientEnv =
  getQRChannel :: "error + (QRChannelItem list \<times> bool)"
  connect :: "error option outcome"
  encodeQR :: "string \<Rightarrow> error + string"

text \<open>
  How a goroutine's function ends: it falls off its end or returns
  (\<open>Finished\<close>), it returns early because the direct connect failed
  (\<open>ConnectFailed\<close>), a panic unwinds it (\<open>Panicked\<close>; \<open>Recovered\<close> once the
  deferred \<^verbatim>\<open>recover\<close> has caught it), or it stays blocked (\<open>Blocked\<close>).
\<close>

datatype Exit = Finished | ConnectFailed | Panicked | Recovered | Blocked

text \<open>
  \<^verbatim>\<open>generateQRCodeImage\<close>: print the code on the terminal, encode it as a PNG and
  prefix the base64 text. The terminal printer is taken to return: it panics
  only on a code too long for a QR symbol, which the encoder rejects as well.
\<close>

definition generateQRCodeImage ::
  "ClientEnv \<Rightarrow> MultiSessionManager \<Rightarrow> string \<Rightarrow> (error + string) \<times> MultiSessionManager" where
  "generateQRCodeImage env w code =
     (case encodeQR env code of
        Inl err \<Rightarrow> (Inl (Wrap ''failed to generate QR code image'' err), emit [PrintQRCode code] w)
      | Inr png \<Rightarrow> (Inr (''data:image/png;base64,'' @ png), emit [PrintQRCode code] w))"

text \<open>
  One iteration of \<^verbatim>\<open>for evt := range qrChan\<close>; the flag says that the function
  returned from inside the loop.
\<close>

definition qrEvent ::
  "ClientEnv \<Rightarrow> SessionID \<Rightarrow> QRChannelItem \<Rightarrow> MultiSessionManager \<Rightarrow> bool \<times> MultiSessionManager" where
  "qrEvent env sid evt w =
     (if Event evt = ''code'' then
        (case generateQRCodeImage env w (Code evt) of
           (Inl err, w1) \<Rightarrow> (False, emit [Log LError ''Failed to generate QR code image''] w1)
         | (Inr qrCodeBase64, w1) \<Rightarrow>
             (case SetQRCode (emit [Log LInfo ''Attempting to store QR code in database''] w1)
                     sid qrCodeBase64 of
                (Some err, w2) \<Rightarrow>
                  (False, emit [Log LError ''Failed to store QR code in database''] w2)
              | (None, w2) \<Rightarrow>
                  (False, emit [Log LInfo ''QR code generated and stored successfully''] w2)))
      else if Event evt = ''success'' then
        (case SetQRCode (emit [Log LInfo ''QR code pairing successful''] w) sid [] of
           (Some err, w1) \<Rightarrow> (True, emit [Log LError ''Failed to clear QR code from database''] w1)
         | (None, w1) \<Rightarrow> (True, w1))
      else if Event evt = ''timeout'' then
        (case SetQRCode (emit [Log LWarn ''QR code timeout''] w) sid [] of
           (Some err, w1) \<Rightarrow> (True, emit [Log LError ''Failed to clear QR code from database''] w1)
         | (None, w1) \<Rightarrow> (True, w1))
      else (False, emit [Log LInfo ''QR code event''] w))"

fun qrLoop ::
  "ClientEnv \<Rightarrow> SessionID \<Rightarrow> QRChannelItem list \<Rightarrow> MultiSessionManager \<Rightarrow> bool \<times> MultiSessionManager" where
  "qrLoop env sid [] w = (False, w)"
| "qrLoop env sid (evt # evts) w =
     (case qrEvent env sid evt w of
        (True, w1) \<Rightarrow> (True, w1)
      | (False, w1) \<Rightarrow> qrLoop env sid evts w1)"

text \<open>
  \<^verbatim>\<open>handleQRCodeGeneration\<close>. On a \<^verbatim>\<open>nil\<close> client the library's \<^verbatim>\<open>GetQRChannel\<close>
  returns an error, as it may on any client.
\<close>

definition handleQRCodeGeneration ::
  "ClientEnv \<Rightarrow> MultiSessionManager \<Rightarrow> SessionID \<Rightarrow> SessionClient \<Rightarrow> Exit \<times> MultiSessionManager" where
  "handleQRCodeGeneration env w sid sessionClient =
     (case Client sessionClient of
        None \<Rightarrow> (Finished, emit [Log LError ''Failed to get QR channel''] w)
      | Some c \<Rightarrow>
          (case getQRChannel env of
             Inl err \<Rightarrow>
               (Finished, emit [ClientGetQRChannel c, Log LError ''Failed to get QR channel''] w)
           | Inr (evts, closed) \<Rightarrow>
               (case connect env of
                  Panics \<Rightarrow> (Panicked, emit [ClientGetQRChannel c, ClientConnect c] w)
                | Returns (Some err) \<Rightarrow>
                    (Finished, emit [ClientGetQRChannel c, ClientConnect c,
                                     Log LError ''Failed to connect client for QR generation''] w)
                | Returns None \<Rightarrow>
                    (case qrLoop env sid evts (emit [ClientGetQRChannel c, ClientConnect c] w) of
                       (True, w1) \<Rightarrow> (Finished, w1)
                     | (False, w1) \<Rightarrow> if closed then (Finished, w1) else (Blocked, w1)))))"

text \<open>
  \<^verbatim>\<open>GenerateQRCode\<close>. Between starting the generation goroutine and the second
  read it sleeps for two seconds; \<open>meanwhile\<close> is what the other goroutines do
  to the system in that time.
\<close>

definition GenerateQRCode ::
  "(MultiSessionManager \<Rightarrow> MultiSessionManager) \<Rightarrow> MultiSessionManager \<Rightarrow> SessionID
     \<Rightarrow> (error + string) \<times> MultiSessionManager" where
  "GenerateQRCode meanwhile w sid =
     (let w1 = emit [MutexRLock, MutexRUnlock] w in
      case fmlookup (sessions w1) sid of
        None \<Rightarrow> (Inl (ErrNoSessionClient sid), w1)
      | Some sessionClient \<Rightarrow>
          if SessionClient.Status sessionClient = StatusConnected then
            (Inl (ErrAlreadyConnected sid), w1)
          else
            (case GetByID w1 sid of
               (Inl err, w2) \<Rightarrow> (Inl (Wrap ''failed to get session from database'' err), w2)
             | (Inr session, w2) \<Rightarrow>
                 if QRCode session \<noteq> [] then
                   (Inr (QRCode session), emit [Log LInfo ''Returning existing QR code''] w2)
                 else
                   (case GetByID
                           (meanwhile
                              (emit [Go (HandleQRCodeGeneration sid sessionClient), Sleep 2000] w2))
                           sid of
                      (Inr session', w3) \<Rightarrow>
                        if QRCode session' \<noteq> [] then
                          (Inr (QRCode session'),
                           emit [Log LInfo ''QR code generated and retrieved''] w3)
                        else (Inl ErrQRBeingGenerated, w3)
                    | (Inl err, w3) \<Rightarrow> (Inl ErrQRBeingGenerated, w3))))"

section \<open>Connection worker\<close>



text \<open>
  The end of \<^verbatim>\<open>handleSessionConnection\<close>: the \<^verbatim>\<open>select\<close> on the kill channel and
  the context, then the cleanup. With nothing to receive the goroutine stays
  blocked; it is this function again that runs when it is woken. (When both
  cases are ready Go picks either; here the kill channel is looked at first.)
\<close>

definition waitForKill ::
  "MultiSessionManager \<Rightarrow> bool \<Rightarrow> SessionID \<Rightarrow> SessionClient \<Rightarrow> nat \<Rightarrow> Exit \<times> MultiSessionManager" where
  "waitForKill w ctxDone sid sessionClient c =
     (case fmlookup (chans w) (KillChannel sessionClient) of
        Some (v # buf) \<Rightarrow>
          (Finished,
           updateSessionStatus
             (emit [Log LInfo ''Session received kill signal'', ClientDisconnect c]
                (w\<lparr>chans := fmupd (KillChannel sessionClient) buf (chans w)\<rparr>))
             sid StatusDisconnected)
      | _ \<Rightarrow>
          if ctxDone then
            (Finished,
             updateSessionStatus
               (emit [Log LInfo ''Session context cancelled'', ClientDisconnect c] w)
               sid StatusDisconnected)
          else (Blocked, w))"

text \<open>\<^verbatim>\<open>handleSessionConnection\<close> without its deferred function.\<close>

definition handleSessionConnection_body ::
  "ClientEnv \<Rightarrow> MultiSessionManager \<Rightarrow> bool \<Rightarrow> SessionID \<Rightarrow> SessionClient
     \<Rightarrow> Exit \<times> MultiSessionManager" where
  "handleSessionConnection_body env w ctxDone sid sessionClient =
     (let w1 = updateSessionStatus w sid StatusConnecting in
      case Client sessionClient of
        None \<Rightarrow> (Panicked, w1)
      | Some c \<Rightarrow>
          (let w2 = emit [ClientAddEventHandler c] w1 in
           case Device sessionClient of
             None \<Rightarrow> (Panicked, w2)
           | Some device \<Rightarrow>
               if DeviceID device = None then
                 (case handleQRCodeGeneration env
                         (emit [Log LInfo ''New device, QR code authentication required''] w2)
                         sid sessionClient of
                    (Finished, w3) \<Rightarrow> waitForKill w3 ctxDone sid sessionClient c
                  | (ex, w3) \<Rightarrow> (ex, w3))
               else
                 (let w3 = emit [Log LInfo ''Device has stored ID, attempting direct connection'',
                                 ClientConnect c] w2 in
                  case connect env of
                    Panics \<Rightarrow> (Panicked, w3)
                  | Returns (Some err) \<Rightarrow>
                      (ConnectFailed,
                       updateSessionStatus
                         (emit [Log LError ''Failed to connect to WhatsApp''] w3)
                         sid StatusError)
                  | Returns None \<Rightarrow> waitForKill w3 ctxDone sid sessionClient c)))"

text \<open>The deferred function: a panic is recovered and logged.\<close>

definition handleSessionConnection ::
  "ClientEnv \<Rightarrow> MultiSessionManager \<Rightarrow> bool \<Rightarrow> SessionID \<Rightarrow> SessionClient
     \<Rightarrow> Exit \<times> MultiSessionManager" where
  "handleSessionConnection env w ctxDone sid sessionClient =
     (case handleSessionConnection_body env w ctxDone sid sessionClient of
        (Panicked, w1) \<Rightarrow>
          (Recovered, emit [Log LError ''Panic in session connection handler''] w1)
      | (ex, w1) \<Rightarrow> (ex, w1))"

section \<open>Reading the trace\<close>

text \<open>The actions performed between two states of the same run.\<close>

definition newActions :: "MultiSessionManager \<Rightarrow> MultiSessionManager \<Rightarrow> Action list" where
  "newActions w w' = drop (length (trace w)) (trace w')"

text \<open>
  Calls that block on something outside the process: database statements,
  the library's device store, the protocol client's network calls, sleeping.
\<close>

fun isBlocking :: "Action \<Rightarrow> bool" where
  "isBlocking (DBSelectByID sid) = True"
| "isBlocking (DBSelectByStatus st) = True"
| "isBlocking (DBUpdateStatus sid st) = True"
| "isBlocking (DBUpdateWAJID sid jid) = True"
| "isBlocking (DBUpdateQRCode sid qr) = True"
| "isBlocking (ContainerGetDevice jid) = True"
| "isBlocking (ClientGetQRChannel c) = False"
| "isBlocking (ClientConnect c) = True"
| "isBlocking (ClientDisconnect c) = True"
| "isBlocking (Sleep ms) = True"
| "isBlocking MutexLock = False"
| "isBlocking MutexUnlock = False"
| "isBlocking MutexRLock = False"
| "isBlocking MutexRUnlock = False"
| "isBlocking (NewClient c) = False"
| "isBlocking (ClientAddEventHandler c) = False"
| "isBlocking (PrintQRCode code) = False"
| "isBlocking (Go t) = False"
| "isBlocking (Log l msg) = False"

definition isMutex :: "Action \<Rightarrow> bool" where
  "isMutex a = (a = MutexLock \<or> a = MutexUnlock \<or> a = MutexRLock \<or> a = MutexRUnlock)"

text \<open>
  \<open>heldAcross held acts\<close>: some blocking call of \<open>acts\<close> is made while the mutex
  is held, \<open>held\<close> saying whether it is held at the start.
\<close>

fun heldAcross :: "bool \<Rightarrow> Action list \<Rightarrow> bool" where
  "heldAcross held [] = False"
| "heldAcross held (a # acts) =
     (if a = MutexLock \<or> a = MutexRLock then heldAcross True acts
      else if a = MutexUnlock \<or> a = MutexRUnlock then heldAcross False acts
      else if held \<and> isBlocking a then True
      else heldAcross held acts)"

text \<open>Whether the mutex is held after \<open>acts\<close>.\<close>

fun heldAfter :: "bool \<Rightarrow> Action list \<Rightarrow> bool" where
  "heldAfter held [] = held"
| "heldAfter held (a # acts) =
     (if a = MutexLock \<or> a = MutexRLock then heldAfter True acts
      else if a = MutexUnlock \<or> a = MutexRUnlock then heldAfter False acts
      else heldAfter held acts)"

text \<open>
  \<open>performs P w w'\<close>: the run from \<open>w\<close> to \<open>w'\<close> only added actions to the trace,
  and each of them satisfies \<open>P\<close>.
\<close>

definition performs ::
  "(Action \<Rightarrow> bool) \<Rightarrow> MultiSessionManager \<Rightarrow> MultiSessionManager \<Rightarrow> bool" where
  "performs P w w' =
     (take (length (trace w)) (trace w') = trace w \<and> list_all P (newActions w w'))"

definition isDisconnect :: "Action \<Rightarrow> bool" where
  "isDisconnect a = (case a of ClientDisconnect c \<Rightarrow> True | _ \<Rightarrow> False)"

definition isConnect :: "Action \<Rightarrow> bool" where
  "isConnect a = (case a of ClientConnect c \<Rightarrow> True | _ \<Rightarrow> False)"

text \<open>An action that is neither a disconnect of a client nor a mutex operation.\<close>

definition quiet :: "Action \<Rightarrow> bool" where
  "quiet a = (\<not> isDisconnect a \<and> \<not> isMutex a)"

text \<open>
  \<open>lockSafe w w'\<close>: in the run from \<open>w\<close> to \<open>w'\<close>, started with the mutex free,
  no blocking call is made while the mutex is held, and the mutex is free
  again at the end.
\<close>

definition lockSafe :: "MultiSessionManager \<Rightarrow> MultiSessionManager \<Rightarrow> bool" where
  "lockSafe w w' =
     (take (length (trace w)) (trace w') = trace w
      \<and> \<not> heldAcross False (newActions w w')
      \<and> \<not> heldAfter False (newActions w w'))"

text \<open>The in-memory status of a session, if a worker is registered for it.\<close>

definition statusOf :: "MultiSessionManager \<Rightarrow> SessionID \<Rightarrow> ConnectionStatus option" where
  "statusOf w sid = map_option SessionClient.Status (fmlookup (sessions w) sid)"

text \<open>The goroutines an action list starts.\<close>

fun spawned :: "Action list \<Rightarrow> Task list" where
  "spawned [] = []"
| "spawned (Go t # acts) = t # spawned acts"
| "spawned (a # acts) = spawned acts"

section \<open>Example systems\<close>

definition exampleStore :: WhatsAppStoreManager where
  "exampleStore =
     \<lparr>devices = fmempty, maxDevices = 100, validJID = (\<lambda>jid. True),
      container = (\<lambda>jid. Inr None)\<rparr>"

text \<open>A device store that holds a paired device for every JID.\<close>

definition pairedStore :: WhatsAppStoreManager where
  "pairedStore = exampleStore\<lparr>container := (\<lambda>jid. Inr (Some (NewDevice (Some jid))))\<rparr>"

definition exampleRow :: "SessionID \<Rightarrow> Status \<Rightarrow> string \<Rightarrow> string \<Rightarrow> Session" where
  "exampleRow sid st jid qr =
     \<lparr>ID = sid, Name = sid, Session.Status = st, WebhookURL = [], WAJID = jid, QRCode = qr,
      Events = [], ProxyURL = [], DeviceName = ''WazMeow'', IsActive = True,
      CreatedAt = 0, UpdatedAt = 0, LastConnectedAt = None\<rparr>"

definition exampleWorker :: "nat \<Rightarrow> ConnectionStatus \<Rightarrow> string option \<Rightarrow> SessionClient" where
  "exampleWorker r st jid =
     \<lparr>Client = Some r, Device = Some (NewDevice jid), KillChannel = r + 1,
      SessionClient.Status = st, LastSeen = 0\<rparr>"

text \<open>A manager as \<^verbatim>\<open>NewMultiSessionManager\<close> makes it, with the given table and workers.\<close>

definition exampleManager ::
  "Session list \<Rightarrow> (SessionID \<times> SessionClient) list \<Rightarrow> MultiSessionManager" where
  "exampleManager rs workers =
     (NewMultiSessionManager exampleStore \<lparr>rows = rs, faults = []\<rparr> 0)
       \<lparr>sessions := fmap_of_list workers,
        chans := fmap_of_list (map (\<lambda>(sid, c). (KillChannel c, [])) workers),
        nextRef := 1000,
        trace := []\<rparr>"

text \<open>Fifty connected workers \<open>s\<close>, \<open>ss\<close>, \<open>sss\<close>, ...: the registry at its limit.\<close>

definition fullWorkers :: "(SessionID \<times> SessionClient) list" where
  "fullWorkers =
     map (\<lambda>i. (replicate (Suc i) CHR ''s'', exampleWorker (2 * i) StatusConnected (Some ''1@ext'')))
         [0..<50]"

text \<open>
  A protocol client whose QR channel delivers \<open>evts\<close> and is then closed, whose
  \<^verbatim>\<open>Connect\<close> ends as \<open>con\<close>, with an encoder that always yields \<open>QUJD\<close>.
\<close>

definition exampleEnv :: "QRChannelItem list \<Rightarrow> error option outcome \<Rightarrow> ClientEnv" where
  "exampleEnv evts con =
     \<lparr>getQRChannel = Inr (evts, True), connect = con, encodeQR = (\<lambda>code. Inr ''QUJD'')\<rparr>"

text \<open>
  One session \<open>alice\<close> in the middle of pairing: its worker is registered with
  status \<open>connecting\<close>, its row holds a pairing payload; \<open>fs\<close> are the faults
  of the database.
\<close>

definition aliceManager :: "bool list \<Rightarrow> MultiSessionManager" where
  "aliceManager fs =
     (exampleManager [] [(''alice'', exampleWorker 0 StatusConnecting None)])
       \<lparr>clock := 42,
        sessionRepo :=
          \<lparr>rows = [exampleRow ''alice'' domain_StatusConnecting [] ''data:image/png;base64,QUJD''],
           faults = fs\<rparr>\<rparr>"

text \<open>
  One session \<open>bob\<close> that was paired before: its worker, just registered, has
  a device with a stored identity; its kill channel holds \<open>kill\<close>.
\<close>

definition bobWorker :: SessionClient where
  "bobWorker = exampleWorker 10 StatusDisconnected (Some ''1234@ext'')"

definition bobManager :: "bool list \<Rightarrow> MultiSessionManager" where
  "bobManager kill =
     (exampleManager [exampleRow ''bob'' domain_StatusDisconnected ''1234@ext'' []]
        [(''bob'', bobWorker)])
       \<lparr>chans := fmupd 11 kill fmempty\<rparr>"

text \<open>
  The life of one worker. \<open>dave\<close> was paired before and has no worker
  (\<open>daveManager\<close>). \<^verbatim>\<open>StartSession\<close> registers \<open>daveWorker\<close> and starts its
  goroutine (\<open>daveStarted\<close>); the goroutine connects and blocks in its
  \<^verbatim>\<open>select\<close> (\<open>daveRunning\<close>); \<^verbatim>\<open>StopSession\<close> then sends the kill signal and
  removes the worker (\<open>daveStopped\<close>), after which the goroutine wakes up.
\<close>

definition daveManager :: MultiSessionManager where
  "daveManager =
     (exampleManager [exampleRow ''dave'' domain_StatusConnected ''777@ext'' []] [])
       \<lparr>storeManager := pairedStore\<rparr>"

definition daveWorker :: SessionClient where
  "daveWorker =
     \<lparr>Client = Some 1000, Device = Some (NewDevice (Some ''777@ext'')), KillChannel = 1001,
      SessionClient.Status = StatusDisconnected, LastSeen = 0\<rparr>"

definition daveStarted :: MultiSessionManager where
  "daveStarted = snd (StartSession daveManager ''dave'')"

definition daveRunning :: MultiSessionManager where
  "daveRunning =
     snd (handleSessionConnection (exampleEnv [] (Returns None)) daveStarted False ''dave''
            daveWorker)"

definition daveStopped :: MultiSessionManager where
  "daveStopped = snd (StopSession daveRunning ''dave'')"

text \<open>A row for \<open>carol\<close>, never started: no worker is registered.\<close>

definition carolManager :: MultiSessionManager where
  "carolManager = exampleManager [exampleRow ''carol'' domain_StatusDisconnected [] []] []"

text \<open>
  Two rows: \<open>s1\<close> last stored as connected with identity \<open>999@ext\<close>, \<open>s2\<close> as
  disconnected.
\<close>

definition resumeManager :: MultiSessionManager where
  "resumeManager =
     exampleManager [exampleRow ''s1'' domain_StatusConnected ''999@ext'' [],
                     exampleRow ''s2'' domain_StatusDisconnected [] []] []"

section \<open>Effects of the building blocks\<close>

lemmas status_defs =
  domain_StatusDisconnected_def domain_StatusConnecting_def
  domain_StatusConnected_def domain_StatusError_def
  StatusDisconnected_def StatusConnecting_def StatusConnected_def StatusError_def

lemma sessions_emit [simp]: "sessions (emit acts w) = sessions w"
  by (simp add: emit_def)

lemma trace_emit [simp]: "trace (emit acts w) = trace w @ acts"
  by (simp add: emit_def)

lemma spawned_append [simp]: "spawned (xs @ ys) = spawned xs @ spawned ys"
  by (induction xs rule: spawned.induct) simp_all

lemma exampleManager_ghost:
  "fmlookup (sessions (exampleManager [] [])) ''ghost'' = None"
  by (simp add: exampleManager_def NewMultiSessionManager_def)

lemma fullWorkers_carol:
  "fmlookup (sessions (exampleManager [] fullWorkers)) ''carol'' = None"
  by code_simp

lemma fullWorkers_count:
  "int (fcard (fmdom (sessions (exampleManager [] fullWorkers)))) = 50"
  by code_simp

lemma fullWorkers_max: "maxSessions (exampleManager [] fullWorkers) = 50"
  by (simp add: exampleManager_def NewMultiSessionManager_def)

lemma newActions_append: "trace w' = trace w @ acts \<Longrightarrow> newActions w w' = acts"
  by (simp add: newActions_def)

lemma dbExec_keeps:
  assumes "dbExec a w = (f, w1)"
  shows "sessions w1 = sessions w" and "trace w1 = trace w @ [a]" and "clock w1 = clock w"
    and "rows (sessionRepo w1) = rows (sessionRepo w)" and "chans w1 = chans w"
    and "maxSessions w1 = maxSessions w" and "storeManager w1 = storeManager w"
    and "nextRef w1 = nextRef w"
  using assms by (auto simp: dbExec_def emit_def Let_def split: list.splits)

lemma setRows_keeps [simp]:
  "sessions (setRows f sid w) = sessions w" "trace (setRows f sid w) = trace w"
  "chans (setRows f sid w) = chans w" "clock (setRows f sid w) = clock w"
  by (simp_all add: setRows_def)

lemma UpdateStatus_sessions: "sessions (snd (UpdateStatus w sid st)) = sessions w"
  by (auto simp: UpdateStatus_def Let_def split: prod.splits dest: dbExec_keeps(1))

lemma UpdateStatus_trace:
  "trace (snd (UpdateStatus w sid st)) =
     trace w @ DBUpdateStatus sid st #
       (case fst (UpdateStatus w sid st) of
          None \<Rightarrow> [Log LInfo ''Session status updated successfully'']
        | Some (ErrSessionNotFound x) \<Rightarrow> []
        | Some e \<Rightarrow> [Log LError ''Failed to update session status''])"
  by (auto simp: UpdateStatus_def Let_def split: prod.splits dest: dbExec_keeps(2))

lemma statusWrite_sessions: "sessions (statusWrite w sid st) = sessions w"
  using UpdateStatus_sessions [of w sid "toDomainStatus st"]
  by (auto simp: statusWrite_def split: prod.splits option.splits)

lemma statusWrite_trace:
  "newActions w (statusWrite w sid st) =
     DBUpdateStatus sid (toDomainStatus st) #
       (case fst (UpdateStatus w sid (toDomainStatus st)) of
          None \<Rightarrow> [Log LInfo ''Session status updated successfully'',
                    Log LInfo ''Session status updated in database'']
        | Some (ErrSessionNotFound x) \<Rightarrow> [Log LError ''Failed to update session status in database'']
        | Some e \<Rightarrow> [Log LError ''Failed to update session status'',
                      Log LError ''Failed to update session status in database''])"
  using UpdateStatus_trace [of w sid "toDomainStatus st"]
  by (auto simp: statusWrite_def newActions_def split: prod.splits option.splits error.splits)

lemma updateSessionStatus_registered:
  assumes "fmlookup (sessions w) sid = Some c"
  shows "updateSessionStatus w sid st =
     emit [MutexLock, Go (StatusWrite sid st), MutexUnlock]
       (w\<lparr>sessions := fmupd sid (c\<lparr>SessionClient.Status := st, LastSeen := clock w\<rparr>) (sessions w)\<rparr>)"
  using assms by (simp add: updateSessionStatus_def emit_def Let_def)

lemma updateSessionStatus_unregistered:
  assumes "fmlookup (sessions w) sid = None"
  shows "updateSessionStatus w sid st = emit [MutexLock, MutexUnlock] w"
  using assms by (simp add: updateSessionStatus_def emit_def Let_def)

lemma dbExec_failed:
  "fst (dbExec a w) = (case faults (sessionRepo w) of [] \<Rightarrow> False | f # fs \<Rightarrow> f)"
  by (simp add: dbExec_def Let_def split: list.splits)

lemma startupLoop_trace:
  "\<exists>acts. trace (fst (startupLoop ss w n)) = trace w @ acts
        \<and> spawned acts = map (\<lambda>s. StartSessionTask (Session.ID s))
             (filter (\<lambda>s. Session.Status s = domain_StatusConnected \<and> WAJID s \<noteq> []) ss)"
proof (induction ss arbitrary: w n)
  case Nil
  then show ?case by simp
next
  case (Cons s ss)
  show ?case
  proof (cases "Session.Status s = domain_StatusConnected \<and> WAJID s \<noteq> []")
    case True
    let ?w1 = "emit [Log LInfo ''Reconnecting session on startup'',
                 Go (StartSessionTask (Session.ID s)), Sleep 500] w"
    from Cons.IH [of ?w1 "n + 1"] obtain acts where
      a: "trace (fst (startupLoop ss ?w1 (n + 1))) = trace ?w1 @ acts"
      and b: "spawned acts = map (\<lambda>s. StartSessionTask (Session.ID s))
             (filter (\<lambda>s. Session.Status s = domain_StatusConnected \<and> WAJID s \<noteq> []) ss)"
      by blast
    from True a b show ?thesis by simp
  next
    case False
    with Cons.IH [of w n] show ?thesis by auto
  qed
qed

lemma GetByStatus_trace:
  "\<exists>acts. trace (snd (GetByStatus w st)) = trace w @ acts \<and> spawned acts = []"
  by (auto simp: GetByStatus_def Let_def split: prod.splits dest: dbExec_keeps(2))

lemma connectOnStartup_spawned:
  "spawned (newActions w (connectOnStartup w)) =
     (case fst (GetConnectedSessions (emit [Sleep 2000] w)) of
        Inl err \<Rightarrow> []
      | Inr ss \<Rightarrow> map (\<lambda>s. StartSessionTask (Session.ID s))
                   (filter (\<lambda>s. Session.Status s = domain_StatusConnected \<and> WAJID s \<noteq> []) ss))"
proof -
  let ?w0 = "emit [Sleep 2000] w"
  obtain r w1 where g: "GetConnectedSessions ?w0 = (r, w1)" by (cases "GetConnectedSessions ?w0")
  from GetByStatus_trace [of ?w0 domain_StatusConnected] g obtain acts1 where
    t1: "trace w1 = trace w @ Sleep 2000 # acts1" and s1: "spawned acts1 = []"
    by (auto simp: GetConnectedSessions_def)
  show ?thesis
  proof (cases r)
    case (Inl err)
    with g t1 s1 show ?thesis
      by (simp add: connectOnStartup_def newActions_def)
  next
    case (Inr ss)
    obtain w2 k where l: "startupLoop ss w1 0 = (w2, k)" by (cases "startupLoop ss w1 0")
    from startupLoop_trace [of ss w1 0] l obtain acts2 where
      t2: "trace w2 = trace w1 @ acts2"
      and s2: "spawned acts2 = map (\<lambda>s. StartSessionTask (Session.ID s))
             (filter (\<lambda>s. Session.Status s = domain_StatusConnected \<and> WAJID s \<noteq> []) ss)"
      by auto
    from g Inr l t1 s1 t2 s2 show ?thesis
      by (simp add: connectOnStartup_def newActions_def)
  qed
qed

lemma GetConnectedSessions_rows:
  "fst (GetConnectedSessions w) =
     (if fst (dbExec (DBSelectByStatus domain_StatusConnected) w)
      then Inl (Wrap ''failed to get sessions by status'' ErrExternal)
      else Inr (rev (sort_key CreatedAt
                (filter (\<lambda>s. Session.Status s = domain_StatusConnected) (rows (sessionRepo w))))))"
  by (auto simp: GetConnectedSessions_def GetByStatus_def Let_def split: prod.splits
           dest: dbExec_keeps(4))

lemma connectOnStartup_rows:
  "mset (spawned (newActions w (connectOnStartup w))) =
     (case faults (sessionRepo w) of
        True # fs \<Rightarrow> {#}
      | _ \<Rightarrow> image_mset (\<lambda>s. StartSessionTask (Session.ID s))
              (filter_mset (\<lambda>s. Session.Status s = domain_StatusConnected \<and> WAJID s \<noteq> [])
                 (mset (rows (sessionRepo w)))))"
proof -
  have f: "faults (sessionRepo (emit [Sleep 2000] w)) = faults (sessionRepo w)"
    and r: "rows (sessionRepo (emit [Sleep 2000] w)) = rows (sessionRepo w)"
    by (simp_all add: emit_def)
  have eq: "filter_mset (\<lambda>s. Session.Status s = domain_StatusConnected \<and> WAJID s \<noteq> [])
                 (filter_mset (\<lambda>s. Session.Status s = domain_StatusConnected) M)
          = filter_mset (\<lambda>s. Session.Status s = domain_StatusConnected \<and> WAJID s \<noteq> []) M" for M
    by (rule multiset_eqI) auto
  show ?thesis
    unfolding connectOnStartup_spawned GetConnectedSessions_rows dbExec_failed f r
    by (simp add: eq split: list.splits bool.splits)
qed

lemma GetByID_found:
  assumes "find (\<lambda>s. Session.ID s = sid) (rows (sessionRepo w)) = Some session"
      and "True \<notin> set (take 1 (faults (sessionRepo w)))"
  shows "GetByID w sid =
           (Inr session,
            emit [DBSelectByID sid] (w\<lparr>sessionRepo := (sessionRepo w)\<lparr>faults := tl (faults (sessionRepo w))\<rparr>\<rparr>))"
  using assms
  by (cases "faults (sessionRepo w)") (simp_all add: GetByID_def dbExec_def emit_def Let_def)

lemma GenerateQRCode_cached_step:
  assumes "fmlookup (sessions w) sid = Some c"
      and "SessionClient.Status c \<noteq> StatusConnected"
      and "find (\<lambda>s. Session.ID s = sid) (rows (sessionRepo w)) = Some session"
      and "QRCode session \<noteq> []"
      and "True \<notin> set (take 1 (faults (sessionRepo w)))"
  shows "GenerateQRCode m w sid =
           (Inr (QRCode session),
            emit [MutexRLock, MutexRUnlock, DBSelectByID sid, Log LInfo ''Returning existing QR code'']
              (w\<lparr>sessionRepo := (sessionRepo w)\<lparr>faults := tl (faults (sessionRepo w))\<rparr>\<rparr>))"
proof -
  let ?w1 = "emit [MutexRLock, MutexRUnlock] w"
  have "find (\<lambda>s. Session.ID s = sid) (rows (sessionRepo ?w1)) = Some session"
    and "True \<notin> set (take 1 (faults (sessionRepo ?w1)))"
    using assms by (simp_all add: emit_def)
  from GetByID_found [OF this] assms(1,2,4) show ?thesis
    by (simp add: GenerateQRCode_def Let_def emit_def)
qed

lemma SetQRCode_sessions: "sessions (snd (SetQRCode w sid q)) = sessions w"
  by (auto simp: SetQRCode_def Let_def split: prod.splits dest: dbExec_keeps(1))

lemma SetQRCode_performs_aux:
  "\<exists>acts. trace (snd (SetQRCode w sid q)) = trace w @ acts
        \<and> list_all (\<lambda>a. \<not> isDisconnect a \<and> \<not> isMutex a) acts"
  by (auto simp: SetQRCode_def Let_def isDisconnect_def isMutex_def split: prod.splits
           dest: dbExec_keeps(2))


lemma generateQRCodeImage_keeps:
  "sessions (snd (generateQRCodeImage env w code)) = sessions w"
  "sessionRepo (snd (generateQRCodeImage env w code)) = sessionRepo w"
  "clock (snd (generateQRCodeImage env w code)) = clock w"
  "trace (snd (generateQRCodeImage env w code)) = trace w @ [PrintQRCode code]"
  by (simp_all add: generateQRCodeImage_def emit_def split: sum.splits)

lemma qrEvent_sessions: "sessions (snd (qrEvent env sid evt w)) = sessions w"
proof -
  have s: "SetQRCode w' sid q = (r, w'') \<Longrightarrow> sessions w'' = sessions w'" for w' q r w''
    using SetQRCode_sessions [of w' sid q] by simp
  have g: "generateQRCodeImage env w' code = (r, w'') \<Longrightarrow> sessions w'' = sessions w'"
    for w' code r w''
    using generateQRCodeImage_keeps(1) [of env w' code] by simp
  show ?thesis
    by (auto simp: qrEvent_def split: prod.splits sum.splits option.splits dest!: s g)
qed




lemma performs_iff:
  "performs P w w' \<longleftrightarrow> (\<exists>acts. trace w' = trace w @ acts \<and> list_all P acts)"
proof
  assume "performs P w w'"
  then have "trace w' = trace w @ newActions w w'" and "list_all P (newActions w w')"
    unfolding performs_def newActions_def
    by (metis append_take_drop_id, simp)
  then show "\<exists>acts. trace w' = trace w @ acts \<and> list_all P acts" by blast
next
  assume "\<exists>acts. trace w' = trace w @ acts \<and> list_all P acts"
  then show "performs P w w'" by (auto simp: performs_def newActions_def)
qed

lemma performsI: "trace w' = trace w @ acts \<Longrightarrow> list_all P acts \<Longrightarrow> performs P w w'"
  by (auto simp: performs_iff)

lemma performs_refl [simp]: "performs P w w"
  by (simp add: performs_iff)

lemma performs_trans: "performs P w w1 \<Longrightarrow> performs P w1 w2 \<Longrightarrow> performs P w w2"
  by (auto simp: performs_iff)

lemma performs_emit: "list_all P acts \<Longrightarrow> performs P w (emit acts w)"
  by (simp add: performs_iff)

lemma performs_emit_left: "list_all P acts \<Longrightarrow> performs P (emit acts w) w' \<Longrightarrow> performs P w w'"
  by (auto simp: performs_iff)

lemma performs_newActions: "performs P w w' \<Longrightarrow> list_all P (newActions w w')"
  by (simp add: performs_def)

lemma performs_mono: "performs P w w' \<Longrightarrow> (\<And>a. P a \<Longrightarrow> Q a) \<Longrightarrow> performs Q w w'"
  by (auto simp: performs_iff list_all_iff)

lemma statusOf_emit [simp]: "statusOf (emit acts w) sid = statusOf w sid"
  by (simp add: statusOf_def)

lemma updateSessionStatus_statusOf:
  "statusOf (updateSessionStatus w sid st) sid = map_option (\<lambda>x. st) (statusOf w sid)"
  by (cases "fmlookup (sessions w) sid")
     (simp_all add: updateSessionStatus_registered updateSessionStatus_unregistered statusOf_def)

lemma updateSessionStatus_performs:
  "performs (\<lambda>a. \<not> isDisconnect a) w (updateSessionStatus w sid st)"
  by (cases "fmlookup (sessions w) sid")
     (auto simp: updateSessionStatus_registered updateSessionStatus_unregistered isDisconnect_def
           intro!: performs_emit performsI)

lemma SetQRCode_performs:
  "performs quiet w (snd (SetQRCode w sid q))"
  using SetQRCode_performs_aux [of w sid q] by (auto simp: performs_iff list_all_iff quiet_def)

lemma performs_emit_right:
  "performs P w w' \<Longrightarrow> list_all P acts \<Longrightarrow> performs P w (emit acts w')"
  by (auto simp: performs_iff)

lemma SetQRCode_logged_performs:
  assumes "SetQRCode (emit [l] w0) sid q = (r, w'')"
      and "performs quiet w w0" and "quiet l"
  shows "performs quiet w w''"
proof -
  from assms(2,3) have "performs quiet w (emit [l] w0)"
    by (simp add: performs_emit_right)
  moreover from SetQRCode_performs [of "emit [l] w0" sid q] assms(1)
  have "performs quiet (emit [l] w0) w''" by simp
  ultimately show ?thesis by (rule performs_trans)
qed

lemma qrEvent_performs:
  "performs quiet w (snd (qrEvent env sid evt w))"
proof -
  let ?P = "quiet"
  have l: "?P (Log x y)" "?P (PrintQRCode z)" for x y z
    by (simp_all add: quiet_def isDisconnect_def isMutex_def)
  have clear: "performs ?P w
      (snd (case SetQRCode (emit [Log x y] w) sid [] of
              (Some err, w1) \<Rightarrow> (True, emit [Log LError ''Failed to clear QR code from database''] w1)
            | (None, w1) \<Rightarrow> (True, w1)))" for x y
  proof -
    obtain r w1 where s: "SetQRCode (emit [Log x y] w) sid [] = (r, w1)"
      by (cases "SetQRCode (emit [Log x y] w) sid []")
    from SetQRCode_logged_performs [OF s performs_refl l(1)] have "performs ?P w w1" .
    with s show ?thesis
      by (cases r) (simp_all add: performs_emit_right l)
  qed
  show ?thesis
  proof (cases "Event evt = ''code''")
    case True
    show ?thesis
    proof (cases "encodeQR env (Code evt)")
      case (Inl err)
      with True show ?thesis
        by (simp add: qrEvent_def generateQRCodeImage_def performs_emit_right l)
    next
      case (Inr png)
      let ?w1 = "emit [PrintQRCode (Code evt)] w"
      let ?q = "''data:image/png;base64,'' @ png"
      obtain r w2 where s:
        "SetQRCode (emit [Log LInfo ''Attempting to store QR code in database''] ?w1) sid ?q = (r, w2)"
        by (cases "SetQRCode (emit [Log LInfo ''Attempting to store QR code in database''] ?w1) sid ?q")
      have "performs ?P w ?w1" by (simp add: performs_emit l)
      from SetQRCode_logged_performs [OF s this l(1)] have "performs ?P w w2" .
      with True Inr s show ?thesis
        by (cases r) (simp_all add: qrEvent_def generateQRCodeImage_def performs_emit_right l)
    qed
  next
    case False
    with clear [of LInfo "''QR code pairing successful''"] clear [of LWarn "''QR code timeout''"]
    show ?thesis
      by (simp add: qrEvent_def performs_emit l)
  qed
qed

lemma qrLoop_performs:
  "performs quiet w (snd (qrLoop env sid evts w))"
proof (induction evts arbitrary: w)
  case Nil
  show ?case by simp
next
  case (Cons evt evts)
  obtain b w1 where q: "qrEvent env sid evt w = (b, w1)" by (cases "qrEvent env sid evt w")
  from qrEvent_performs [of w env sid evt] q have p: "performs quiet w w1" by simp
  show ?case
  proof (cases b)
    case True
    with q p show ?thesis by simp
  next
    case False
    with q p Cons.IH [of w1] show ?thesis by (auto intro: performs_trans)
  qed
qed

lemma qrLoop_sessions: "sessions (snd (qrLoop env sid evts w)) = sessions w"
proof (induction evts arbitrary: w)
  case Nil
  show ?case by simp
next
  case (Cons evt evts)
  obtain b w1 where q: "qrEvent env sid evt w = (b, w1)" by (cases "qrEvent env sid evt w")
  from qrEvent_sessions [of env sid evt w] q have "sessions w1 = sessions w" by simp
  with q Cons.IH [of w1] show ?case by (cases b) simp_all
qed

lemma handleQRCodeGeneration_result:
  assumes "handleQRCodeGeneration env w sid sc = (ex, w')"
  shows "performs quiet w w'" and "sessions w' = sessions w"
    and "ex = Finished \<or> ex = Panicked \<or> ex = Blocked"
proof -
  have l: "quiet (Log x y)" "quiet (ClientGetQRChannel c)"
          "quiet (ClientConnect c)" for x y c
    by (simp_all add: quiet_def isDisconnect_def isMutex_def)
  have q: "qrLoop env sid evts (emit acts w) = (b, w1) \<Longrightarrow> list_all quiet acts
             \<Longrightarrow> performs quiet w w1 \<and> sessions w1 = sessions w" for evts acts b w1
    using qrLoop_performs [of "emit acts w" env sid evts] qrLoop_sessions [of env sid evts "emit acts w"]
    by (auto intro: performs_emit_left)
  from assms show "performs quiet w w'"
    by (auto simp: handleQRCodeGeneration_def l split: option.splits sum.splits prod.splits
                   outcome.splits bool.splits if_splits intro!: performs_emit dest!: q)
  from assms show "sessions w' = sessions w"
    by (auto simp: handleQRCodeGeneration_def l split: option.splits sum.splits prod.splits
                   outcome.splits bool.splits if_splits dest!: q)
  from assms show "ex = Finished \<or> ex = Panicked \<or> ex = Blocked"
    by (auto simp: handleQRCodeGeneration_def split: option.splits sum.splits prod.splits
                   outcome.splits bool.splits if_splits)
qed

lemma quiet_no_disconnect: "performs quiet w w' \<Longrightarrow> performs (\<lambda>a. \<not> isDisconnect a) w w'"
  by (erule performs_mono) (simp add: quiet_def)

lemma waitForKill_result:
  assumes "waitForKill w ctxDone sid sc c = (ex, w')"
  shows "(ex = Finished \<and> performs (\<lambda>a. True) w w' \<and> ClientDisconnect c \<in> set (newActions w w')
            \<and> statusOf w' sid = map_option (\<lambda>x. StatusDisconnected) (statusOf w sid))
       \<or> (ex = Blocked \<and> w' = w)"
proof -
  have k: "performs (\<lambda>a. True) w (updateSessionStatus (emit [l, ClientDisconnect c] w0) sid StatusDisconnected)
         \<and> ClientDisconnect c \<in> set (newActions w (updateSessionStatus (emit [l, ClientDisconnect c] w0) sid StatusDisconnected))
         \<and> statusOf (updateSessionStatus (emit [l, ClientDisconnect c] w0) sid StatusDisconnected) sid
             = map_option (\<lambda>x. StatusDisconnected) (statusOf w sid)"
    if "trace w0 = trace w" "sessions w0 = sessions w" for l w0
  proof -
    let ?w1 = "emit [l, ClientDisconnect c] w0"
    from updateSessionStatus_performs [of ?w1 sid StatusDisconnected]
    obtain acts where t: "trace (updateSessionStatus ?w1 sid StatusDisconnected) = trace ?w1 @ acts"
      by (auto simp: performs_iff)
    with that(1) have t': "trace (updateSessionStatus ?w1 sid StatusDisconnected)
        = trace w @ (l # ClientDisconnect c # acts)" by simp
    have s: "statusOf w0 sid = statusOf w sid" using that(2) by (simp add: statusOf_def)
    from t' s show ?thesis
      by (auto simp: performs_iff newActions_def updateSessionStatus_statusOf list_all_iff)
  qed
  from assms show ?thesis
    by (auto simp: waitForKill_def split: option.splits list.splits if_splits
             dest!: sym [of _ w'] intro!: k [THEN conjunct1] k [THEN conjunct2, THEN conjunct1]
                k [THEN conjunct2, THEN conjunct2])
qed

lemma newActions_trans:
  assumes "performs P w w1" and "performs Q w1 w2"
  shows "newActions w w2 = newActions w w1 @ newActions w1 w2"
  using assms by (auto simp: performs_iff newActions_def)

lemma waitForKill_after:
  assumes p: "performs (\<lambda>a. \<not> isDisconnect a) w w3"
      and s: "statusOf w3 sid = map_option (\<lambda>x. StatusConnecting) (statusOf w sid)"
      and k: "waitForKill w3 ctxDone sid sc c = (ex, w')"
  shows "(ex = Finished \<and> ClientDisconnect c \<in> set (newActions w w')
            \<and> statusOf w' sid = map_option (\<lambda>x. StatusDisconnected) (statusOf w sid))
       \<or> (ex = Blocked \<and> performs (\<lambda>a. \<not> isDisconnect a) w w'
            \<and> statusOf w' sid = map_option (\<lambda>x. StatusConnecting) (statusOf w sid))"
proof -
  from waitForKill_result [OF k] show ?thesis
  proof
    assume f: "ex = Finished \<and> performs (\<lambda>a. True) w3 w'
       \<and> ClientDisconnect c \<in> set (newActions w3 w')
       \<and> statusOf w' sid = map_option (\<lambda>x. StatusDisconnected) (statusOf w3 sid)"
    then have "newActions w w' = newActions w w3 @ newActions w3 w'"
      using p by (blast intro: newActions_trans)
    with f s show ?thesis by (simp add: option.map_comp comp_def)
  next
    assume "ex = Blocked \<and> w' = w3"
    with p s show ?thesis by simp
  qed
qed

lemma handleSessionConnection_body_result:
  assumes b: "handleSessionConnection_body env w ctxDone sid sc = (ex, w')"
  shows "(ex = Finished
            \<and> (\<exists>c. Client sc = Some c \<and> ClientDisconnect c \<in> set (newActions w w'))
            \<and> statusOf w' sid = map_option (\<lambda>x. StatusDisconnected) (statusOf w sid))
       \<or> (ex = ConnectFailed \<and> performs (\<lambda>a. \<not> isDisconnect a) w w'
            \<and> statusOf w' sid = map_option (\<lambda>x. StatusError) (statusOf w sid))
       \<or> ((ex = Panicked \<or> ex = Blocked) \<and> performs (\<lambda>a. \<not> isDisconnect a) w w'
            \<and> statusOf w' sid = map_option (\<lambda>x. StatusConnecting) (statusOf w sid))"
proof -
  let ?P = "\<lambda>a. \<not> isDisconnect a"
  let ?w1 = "updateSessionStatus w sid StatusConnecting"
  have p1: "performs ?P w ?w1" by (rule updateSessionStatus_performs)
  have s1: "statusOf ?w1 sid = map_option (\<lambda>x. StatusConnecting) (statusOf w sid)"
    by (rule updateSessionStatus_statusOf)
  have l: "?P (Log x y)" "?P (ClientAddEventHandler z)" "?P (ClientConnect z)" for x y z
    by (simp_all add: isDisconnect_def)
  show ?thesis
  proof (cases "Client sc")
    case None
    with b p1 s1 show ?thesis by (simp add: handleSessionConnection_body_def Let_def)
  next
    case (Some c)
    let ?w2 = "emit [ClientAddEventHandler c] ?w1"
    have p2: "performs ?P w ?w2" using p1 by (simp add: performs_emit_right l)
    have s2: "statusOf ?w2 sid = map_option (\<lambda>x. StatusConnecting) (statusOf w sid)"
      using s1 by simp
    show ?thesis
    proof (cases "Device sc")
      case None
      with b Some p2 s2 show ?thesis by (simp add: handleSessionConnection_body_def Let_def)
    next
      case dev: (Some device)
      show ?thesis
      proof (cases "DeviceID device = None")
        case True
        let ?w2' = "emit [Log LInfo ''New device, QR code authentication required''] ?w2"
        obtain ex1 w3 where q: "handleQRCodeGeneration env ?w2' sid sc = (ex1, w3)"
          by (cases "handleQRCodeGeneration env ?w2' sid sc")
        have p2': "performs ?P w ?w2'" using p2 by (simp add: performs_emit_right l)
        from handleQRCodeGeneration_result(2,3) [OF q]
             quiet_no_disconnect [OF handleQRCodeGeneration_result(1) [OF q]]
        have p3: "performs ?P w w3" and s3: "statusOf w3 sid = map_option (\<lambda>x. StatusConnecting) (statusOf w sid)"
          and e1: "ex1 = Finished \<or> ex1 = Panicked \<or> ex1 = Blocked"
          using p2' s2 by (auto intro: performs_trans simp: statusOf_def)
        show ?thesis
        proof (cases "ex1 = Finished")
          case True
          with b Some dev \<open>DeviceID device = None\<close> q
          have "waitForKill w3 ctxDone sid sc c = (ex, w')"
            by (simp add: handleSessionConnection_body_def Let_def)
          from waitForKill_after [OF p3 s3 this] Some show ?thesis by auto
        next
          case False
          with b Some dev \<open>DeviceID device = None\<close> q e1
          have "ex = ex1" "w' = w3"
            by (auto simp: handleSessionConnection_body_def Let_def)
          with False e1 p3 s3 show ?thesis by auto
        qed
      next
        case False
        let ?w3 = "emit [Log LInfo ''Device has stored ID, attempting direct connection'',
                         ClientConnect c] ?w2"
        have p3: "performs ?P w ?w3" using p2 by (simp add: performs_emit_right l)
        have s3: "statusOf ?w3 sid = map_option (\<lambda>x. StatusConnecting) (statusOf w sid)"
          using s2 by simp
        show ?thesis
        proof (cases "connect env")
          case Panics
          with b Some dev False p3 s3 show ?thesis
            by (simp add: handleSessionConnection_body_def Let_def)
        next
          case (Returns r)
          show ?thesis
          proof (cases r)
            case None
            with b Some dev False Returns
            have "waitForKill ?w3 ctxDone sid sc c = (ex, w')"
              by (simp add: handleSessionConnection_body_def Let_def)
            from waitForKill_after [OF p3 s3 this] Some show ?thesis by auto
          next
            case err: (Some e)
            let ?w4 = "updateSessionStatus (emit [Log LError ''Failed to connect to WhatsApp''] ?w3)
                         sid StatusError"
            from b Some dev False Returns err have r: "ex = ConnectFailed" "w' = ?w4"
              by (simp_all add: handleSessionConnection_body_def Let_def)
            have "performs ?P w (emit [Log LError ''Failed to connect to WhatsApp''] ?w3)"
              using p3 by (simp add: performs_emit_right l)
            then have p4: "performs ?P w ?w4"
              by (rule performs_trans) (rule updateSessionStatus_performs)
            have s4: "statusOf ?w4 sid = map_option (\<lambda>x. StatusError) (statusOf w sid)"
              using s3 by (simp add: updateSessionStatus_statusOf option.map_comp comp_def)
            from r p4 s4 show ?thesis by simp
          qed
        qed
      qed
    qed
  qed
qed

lemma heldAfter_append: "heldAfter h (xs @ ys) = heldAfter (heldAfter h xs) ys"
  by (induction xs arbitrary: h) simp_all

lemma heldAcross_append:
  "heldAcross h (xs @ ys) = (heldAcross h xs \<or> heldAcross (heldAfter h xs) ys)"
  by (induction xs arbitrary: h) auto

lemma no_mutex_heldAfter: "list_all (\<lambda>a. \<not> isMutex a) xs \<Longrightarrow> heldAfter h xs = h"
  by (induction xs) (auto simp: isMutex_def)

lemma no_mutex_free: "list_all (\<lambda>a. \<not> isMutex a) xs \<Longrightarrow> \<not> heldAcross False xs"
  by (induction xs) (auto simp: isMutex_def)

lemma no_mutex_held:
  "list_all (\<lambda>a. \<not> isMutex a) xs \<Longrightarrow> heldAcross True xs = (\<exists>a \<in> set xs. isBlocking a)"
  by (induction xs) (auto simp: isMutex_def)

lemma lockSafe_iff:
  "lockSafe w w' \<longleftrightarrow>
     (\<exists>acts. trace w' = trace w @ acts \<and> \<not> heldAcross False acts \<and> \<not> heldAfter False acts)"
proof
  assume "lockSafe w w'"
  then have "trace w' = trace w @ newActions w w'"
    and "\<not> heldAcross False (newActions w w')" and "\<not> heldAfter False (newActions w w')"
    unfolding lockSafe_def newActions_def
    by (metis append_take_drop_id, simp_all)
  then show "\<exists>acts. trace w' = trace w @ acts \<and> \<not> heldAcross False acts \<and> \<not> heldAfter False acts"
    by blast
next
  assume "\<exists>acts. trace w' = trace w @ acts \<and> \<not> heldAcross False acts \<and> \<not> heldAfter False acts"
  then show "lockSafe w w'" by (auto simp: lockSafe_def newActions_def)
qed

lemma lockSafe_refl [simp]: "lockSafe w w"
  by (simp add: lockSafe_iff)

lemma lockSafe_trans: "lockSafe w w1 \<Longrightarrow> lockSafe w1 w2 \<Longrightarrow> lockSafe w w2"
  by (auto simp: lockSafe_iff heldAcross_append heldAfter_append)

lemma performs_lockSafe: "performs (\<lambda>a. \<not> isMutex a) w w' \<Longrightarrow> lockSafe w w'"
  by (auto simp: performs_iff lockSafe_iff no_mutex_heldAfter no_mutex_free)

lemma quiet_lockSafe: "performs quiet w w' \<Longrightarrow> lockSafe w w'"
  by (rule performs_lockSafe, erule performs_mono) (simp add: quiet_def)

lemma lockSafe_emit: "list_all (\<lambda>a. \<not> isMutex a) acts \<Longrightarrow> lockSafe w (emit acts w)"
  by (rule performs_lockSafe) (simp add: performs_emit)

lemma lockSafe_emit_right:
  "lockSafe w w' \<Longrightarrow> list_all (\<lambda>a. \<not> isMutex a) acts \<Longrightarrow> lockSafe w (emit acts w')"
  by (erule lockSafe_trans) (rule lockSafe_emit)

lemma updateSessionStatus_lockSafe: "lockSafe w (updateSessionStatus w sid st)"
  by (cases "fmlookup (sessions w) sid")
     (simp_all add: updateSessionStatus_registered updateSessionStatus_unregistered lockSafe_iff)

lemma lockSafe_update:
  "lockSafe w w' \<Longrightarrow> lockSafe w (updateSessionStatus w' sid st)"
  by (erule lockSafe_trans) (rule updateSessionStatus_lockSafe)

lemma waitForKill_lockSafe: "lockSafe w (snd (waitForKill w ctxDone sid sc c))"
proof -
  have m: "list_all (\<lambda>a. \<not> isMutex a) [Log x y, ClientDisconnect c]" for x y
    by (simp add: isMutex_def)
  have k: "lockSafe w (updateSessionStatus (emit [Log x y, ClientDisconnect c] w0) sid st)"
    if "trace w0 = trace w" for x y w0 st
  proof -
    have "lockSafe w (emit [Log x y, ClientDisconnect c] w0)"
      using that by (simp add: lockSafe_iff isMutex_def)
    then show ?thesis by (rule lockSafe_update)
  qed
  show ?thesis
    by (auto simp: waitForKill_def split: option.splits list.splits intro!: k)
qed

lemma handleSessionConnection_body_lockSafe:
  "lockSafe w (snd (handleSessionConnection_body env w ctxDone sid sc))"
proof -
  let ?w1 = "updateSessionStatus w sid StatusConnecting"
  have p1: "lockSafe w ?w1" by (rule updateSessionStatus_lockSafe)
  have m: "\<not> isMutex (Log x y)" "\<not> isMutex (ClientAddEventHandler z)" "\<not> isMutex (ClientConnect z)"
    for x y z by (simp_all add: isMutex_def)
  show ?thesis
  proof (cases "Client sc")
    case None
    with p1 show ?thesis by (simp add: handleSessionConnection_body_def Let_def)
  next
    case (Some c)
    let ?w2 = "emit [ClientAddEventHandler c] ?w1"
    have p2: "lockSafe w ?w2" using p1 by (simp add: lockSafe_emit_right m)
    show ?thesis
    proof (cases "Device sc")
      case None
      with Some p2 show ?thesis by (simp add: handleSessionConnection_body_def Let_def)
    next
      case dev: (Some device)
      show ?thesis
      proof (cases "DeviceID device = None")
        case True
        let ?w2' = "emit [Log LInfo ''New device, QR code authentication required''] ?w2"
        obtain ex1 w3 where q: "handleQRCodeGeneration env ?w2' sid sc = (ex1, w3)"
          by (cases "handleQRCodeGeneration env ?w2' sid sc")
        have "lockSafe w ?w2'" using p2 by (simp add: lockSafe_emit_right m)
        with quiet_lockSafe [OF handleQRCodeGeneration_result(1) [OF q]]
        have p3: "lockSafe w w3" by (blast intro: lockSafe_trans)
        with waitForKill_lockSafe [of w3 ctxDone sid sc c]
        have "lockSafe w (snd (waitForKill w3 ctxDone sid sc c))" by (blast intro: lockSafe_trans)
        with p3 Some dev True q show ?thesis
          by (cases ex1) (simp_all add: handleSessionConnection_body_def Let_def)
      next
        case False
        let ?w3 = "emit [Log LInfo ''Device has stored ID, attempting direct connection'',
                         ClientConnect c] ?w2"
        have p3: "lockSafe w ?w3" using p2 by (simp add: lockSafe_emit_right m)
        with waitForKill_lockSafe [of ?w3 ctxDone sid sc c]
        have p4: "lockSafe w (snd (waitForKill ?w3 ctxDone sid sc c))"
          by (blast intro: lockSafe_trans)
        have p5: "lockSafe w (updateSessionStatus
                    (emit [Log LError ''Failed to connect to WhatsApp''] ?w3) sid StatusError)"
          using p3 by (simp add: lockSafe_update lockSafe_emit_right m)
        from False obtain j where j: "DeviceID device = Some j" by auto
        from Some dev j p3 p4 p5 show ?thesis
          by (simp add: handleSessionConnection_body_def Let_def split: outcome.splits option.splits)
      qed
    qed
  qed
qed

lemma handleSessionConnection_lockSafe:
  "lockSafe w (snd (handleSessionConnection env w ctxDone sid sc))"
proof -
  obtain ex w1 where b: "handleSessionConnection_body env w ctxDone sid sc = (ex, w1)"
    by (cases "handleSessionConnection_body env w ctxDone sid sc")
  from handleSessionConnection_body_lockSafe [of w env ctxDone sid sc] b
  have "lockSafe w w1" by simp
  with b show ?thesis
    by (cases ex) (simp_all add: handleSessionConnection_def lockSafe_emit_right isMutex_def)
qed

lemma chanTrySend_keeps [simp]:
  "trace (chanTrySend ch v w) = trace w" "sessions (chanTrySend ch v w) = sessions w"
  "maxSessions (chanTrySend ch v w) = maxSessions w"
  by (simp_all add: chanTrySend_def split: option.splits)

lemma emit_other [simp]:
  "maxSessions (emit acts w) = maxSessions w" "clock (emit acts w) = clock w"
  "sessionRepo (emit acts w) = sessionRepo w" "storeManager (emit acts w) = storeManager w"
  "chans (emit acts w) = chans w" "nextRef (emit acts w) = nextRef w"
  by (simp_all add: emit_def)

lemma GetByID_trace:
  "\<exists>acts. trace (snd (GetByID w sid)) = trace w @ DBSelectByID sid # acts
        \<and> list_all (\<lambda>a. \<not> isMutex a \<and> \<not> isConnect a) acts"
  by (auto simp: GetByID_def Let_def isMutex_def isConnect_def
           split: prod.splits option.splits dest: dbExec_keeps(2))

lemma GetByID_keeps:
  "sessions (snd (GetByID w sid)) = sessions w"
  "maxSessions (snd (GetByID w sid)) = maxSessions w"
  by (auto simp: GetByID_def Let_def split: prod.splits option.splits
           dest: dbExec_keeps(1) dbExec_keeps(6))

lemma restoreDevice_trace:
  "trace (snd (restoreDevice w jid)) =
     trace w @ (if validJID (storeManager w) jid then [ContainerGetDevice jid] else [])"
  by (simp add: restoreDevice_def split: sum.splits)

lemma GetOrCreateDevice_performs:
  "performs (\<lambda>a. \<not> isMutex a \<and> \<not> isConnect a) w (snd (GetOrCreateDevice w sid jid))"
proof -
  have r: "restoreDevice w jid = (x, w') \<Longrightarrow>
             trace w' = trace w @ [ContainerGetDevice jid] \<or> trace w' = trace w"
    for x w'
    using restoreDevice_trace [of w jid] by simp
  show ?thesis
    unfolding performs_iff
    by (auto simp: GetOrCreateDevice_def Let_def isMutex_def isConnect_def
             split: option.splits prod.splits sum.splits dest!: r)
qed

lemma cleanupSessionUnsafe_performs:
  "performs (\<lambda>a. \<not> isMutex a \<and> \<not> isConnect a) w (snd (cleanupSessionUnsafe w sid))"
  unfolding performs_iff
  by (auto simp: cleanupSessionUnsafe_def Let_def isMutex_def isConnect_def split: option.splits)

lemma cleanupSessionUnsafe_keeps:
  "sessions (snd (cleanupSessionUnsafe w sid)) = fmdrop sid (sessions w)"
  "maxSessions (snd (cleanupSessionUnsafe w sid)) = maxSessions w"
  by (auto simp: cleanupSessionUnsafe_def Let_def fmdrop_idle fmdom_notI split: option.splits)

lemma StartSession_register_performs:
  "performs (\<lambda>a. \<not> isMutex a \<and> \<not> isConnect a) w (snd (StartSession_register w sid))"
proof (cases "int (fcard (fmdom (sessions w))) \<ge> maxSessions w")
  case True
  then show ?thesis by (simp add: StartSession_register_def)
next
  case False
  let ?Q = "\<lambda>a. \<not> isMutex a \<and> \<not> isConnect a"
  obtain r w1 where g: "GetByID w sid = (r, w1)" by (cases "GetByID w sid")
  from GetByID_trace [of w sid] g have p1: "performs ?Q w w1"
    by (auto simp: performs_iff isMutex_def isConnect_def)
  show ?thesis
  proof (cases r)
    case (Inl err)
    with False g p1 show ?thesis by (simp add: StartSession_register_def)
  next
    case (Inr session)
    obtain d w2 where o: "GetOrCreateDevice w1 sid (WAJID session) = (d, w2)"
      by (cases "GetOrCreateDevice w1 sid (WAJID session)")
    from GetOrCreateDevice_performs [of w1 sid "WAJID session"] o p1
    have p2: "performs ?Q w w2" by (auto intro: performs_trans)
    show ?thesis
    proof (cases d)
      case (Inl err)
      with False g Inr o p2 show ?thesis by (simp add: StartSession_register_def)
    next
      case dev: (Inr device)
      from p2 obtain acts where t: "trace w2 = trace w @ acts" and a: "list_all ?Q acts"
        by (auto simp: performs_iff)
      from False g Inr o dev t a show ?thesis
        by (simp add: StartSession_register_def Let_def performs_iff isMutex_def isConnect_def)
    qed
  qed
qed

lemma StartSession_register_reads:
  assumes "int (fcard (fmdom (sessions w))) < maxSessions w"
  shows "DBSelectByID sid \<in> set (newActions w (snd (StartSession_register w sid)))"
proof -
  let ?Q = "\<lambda>a. \<not> isMutex a \<and> \<not> isConnect a"
  obtain r w1 where g: "GetByID w sid = (r, w1)" by (cases "GetByID w sid")
  from GetByID_trace [of w sid] g obtain acts where
    t1: "trace w1 = trace w @ DBSelectByID sid # acts" by auto
  have "\<exists>acts'. trace (snd (StartSession_register w sid)) = trace w1 @ acts'"
  proof (cases r)
    case (Inl err)
    with assms g show ?thesis by (simp add: StartSession_register_def)
  next
    case (Inr session)
    obtain d w2 where o: "GetOrCreateDevice w1 sid (WAJID session) = (d, w2)"
      by (cases "GetOrCreateDevice w1 sid (WAJID session)")
    from GetOrCreateDevice_performs [of w1 sid "WAJID session"] o
    obtain acts2 where t2: "trace w2 = trace w1 @ acts2" by (auto simp: performs_iff)
    from assms g Inr o t2 show ?thesis
      by (cases d) (simp_all add: StartSession_register_def Let_def)
  qed
  with t1 show ?thesis by (auto simp: newActions_def)
qed

lemma StartSession_locked_performs:
  "performs (\<lambda>a. \<not> isMutex a \<and> \<not> isConnect a) w (snd (StartSession_locked w sid))"
proof (cases "fmlookup (sessions w) sid")
  case None
  then show ?thesis by (simp add: StartSession_locked_def StartSession_register_performs)
next
  case (Some client)
  show ?thesis
  proof (cases "SessionClient.Status client = StatusConnected")
    case True
    with Some show ?thesis
      by (simp add: StartSession_locked_def performs_emit isMutex_def isConnect_def)
  next
    case False
    with Some cleanupSessionUnsafe_performs [of w sid]
         StartSession_register_performs [of "snd (cleanupSessionUnsafe w sid)" sid]
    show ?thesis
      by (auto simp: StartSession_locked_def intro: performs_trans)
  qed
qed

lemma StartSession_locked_reads:
  assumes "statusOf w sid \<noteq> Some StatusConnected"
      and "int (fcard (fmdom (fmdrop sid (sessions w)))) < maxSessions w"
  shows "DBSelectByID sid \<in> set (newActions w (snd (StartSession_locked w sid)))"
proof (cases "fmlookup (sessions w) sid")
  case None
  then have "fmdrop sid (sessions w) = sessions w" by (simp add: fmdrop_idle fmdom_notI)
  with assms(2) None StartSession_register_reads [of w sid] show ?thesis
    by (simp add: StartSession_locked_def)
next
  case (Some client)
  let ?w1 = "snd (cleanupSessionUnsafe w sid)"
  from Some assms(1) have n: "SessionClient.Status client \<noteq> StatusConnected"
    by (simp add: statusOf_def)
  from assms(2) have "int (fcard (fmdom (sessions ?w1))) < maxSessions ?w1"
    by (simp add: cleanupSessionUnsafe_keeps)
  from StartSession_register_reads [OF this, of sid]
  have "DBSelectByID sid \<in> set (newActions ?w1 (snd (StartSession_register ?w1 sid)))" .
  moreover have "newActions w (snd (StartSession_register ?w1 sid))
      = newActions w ?w1 @ newActions ?w1 (snd (StartSession_register ?w1 sid))"
    by (rule newActions_trans [OF cleanupSessionUnsafe_performs StartSession_register_performs])
  ultimately show ?thesis using Some n by (simp add: StartSession_locked_def)
qed

lemma StartSession_trace:
  "\<exists>mid. newActions w (snd (StartSession w sid)) = MutexLock # mid @ [MutexUnlock]
        \<and> list_all (\<lambda>a. \<not> isMutex a \<and> \<not> isConnect a) mid
        \<and> mid = newActions (emit [MutexLock] w) (snd (StartSession_locked (emit [MutexLock] w) sid))"
proof -
  let ?w0 = "emit [MutexLock] w"
  obtain r w1 where l: "StartSession_locked ?w0 sid = (r, w1)"
    by (cases "StartSession_locked ?w0 sid")
  from StartSession_locked_performs [of ?w0 sid] l obtain mid where
    t: "trace w1 = trace ?w0 @ mid" and a: "list_all (\<lambda>a. \<not> isMutex a \<and> \<not> isConnect a) mid"
    by (auto simp: performs_iff)
  from l t a show ?thesis
    by (simp add: StartSession_def newActions_def)
qed

lemma runStartSessionTasks_map:
  "runStartSessionTasks (map (\<lambda>s. StartSessionTask (Session.ID s)) xs) v =
     foldl (\<lambda>v s. case StartSession v (Session.ID s) of
                      (None, v1) \<Rightarrow> v1
                    | (Some err, v1) \<Rightarrow> emit [Log LError ''Failed to reconnect session on startup''] v1)
           v xs"
  by (induction xs arbitrary: v) (auto simp: startSessionTask_def split: prod.splits option.splits)

lemma waitForKill_unregistered:
  assumes n: "statusOf w sid = None"
      and k: "waitForKill w ctxDone sid sc c = (Finished, w')"
  shows "sessions w' = sessions w" and "spawned (newActions w w') = []"
proof -
  from n have u: "fmlookup (sessions w) sid = None" by (simp add: statusOf_def)
  have e: "updateSessionStatus (emit acts w0) sid StatusDisconnected
             = emit [MutexLock, MutexUnlock] (emit acts w0)"
    if "sessions w0 = sessions w" for acts w0
    using u that by (simp add: updateSessionStatus_unregistered)
  from k have "sessions w' = sessions w \<and> spawned (newActions w w') = []"
    by (auto simp: waitForKill_def e newActions_def split: option.splits list.splits if_splits)
  then show "sessions w' = sessions w" and "spawned (newActions w w') = []" by simp_all
qed

lemma StopSession_deregisters: "statusOf (snd (StopSession w sid)) sid = None"
  by (simp add: StopSession_def cleanupSessionUnsafe_def statusOf_def Let_def
           split: option.splits prod.splits)

lemma waitForKill_exits:
  "(case waitForKill w2 ctxDone sid sessionClient c of
      (Finished, w3) \<Rightarrow>
        ClientDisconnect c \<in> set (newActions w2 w3)
        \<and> statusOf w3 sid = map_option (\<lambda>x. StatusDisconnected) (statusOf w2 sid)
        \<and> (statusOf w2 sid = None \<longrightarrow>
             sessions w3 = sessions w2 \<and> spawned (newActions w2 w3) = [])
    | (Blocked, w3) \<Rightarrow> w3 = w2
    | (ex, w3) \<Rightarrow> False)"
proof -
  obtain ex w3 where k: "waitForKill w2 ctxDone sid sessionClient c = (ex, w3)"
    by (cases "waitForKill w2 ctxDone sid sessionClient c")
  from waitForKill_result [OF k] show ?thesis
  proof
    assume f: "ex = Finished \<and> performs (\<lambda>a. True) w2 w3
       \<and> ClientDisconnect c \<in> set (newActions w2 w3)
       \<and> statusOf w3 sid = map_option (\<lambda>x. StatusDisconnected) (statusOf w2 sid)"
    with k have k': "waitForKill w2 ctxDone sid sessionClient c = (Finished, w3)" by simp
    from f k' waitForKill_unregistered [OF _ k'] show ?thesis by simp
  next
    assume "ex = Blocked \<and> w3 = w2"
    with k show ?thesis by simp
  qed
qed

section \<open>The registry\<close>

text \<open>
  C1. If a worker is registered for the session ID and its in-memory status is
  \<open>connected\<close>, \<^verbatim>\<open>StartSession\<close> returns \<^verbatim>\<open>nil\<close>; the registry map is the one before
  the call, so the worker is neither removed nor replaced; no goroutine is
  started. All the call does is take the mutex, log, and release the mutex.
\<close>

theorem StartSession_connected_idempotent:
  assumes "fmlookup (sessions w) sid = Some c"
      and "SessionClient.Status c = StatusConnected"
  shows "fst (StartSession w sid) = None
       \<and> sessions (snd (StartSession w sid)) = sessions w
       \<and> spawned (newActions w (snd (StartSession w sid))) = []
       \<and> snd (StartSession w sid) =
           emit [MutexLock, Log LInfo ''Session already connected'', MutexUnlock] w"
  using assms
  by (simp add: StartSession_def StartSession_locked_def emit_def newActions_def)

theorem StartSession_connected_idempotent_witness:
  "fmlookup (sessions (exampleManager [] [(''alice'', exampleWorker 0 StatusConnected None)]))
      ''alice'' = Some (exampleWorker 0 StatusConnected None)
   \<and> fst (StartSession (exampleManager [] [(''alice'', exampleWorker 0 StatusConnected None)])
            ''alice'') = None
   \<and> sessions (snd (StartSession
            (exampleManager [] [(''alice'', exampleWorker 0 StatusConnected None)]) ''alice''))
       = sessions (exampleManager [] [(''alice'', exampleWorker 0 StatusConnected None)])"
proof -
  have h: "fmlookup (sessions (exampleManager [] [(''alice'', exampleWorker 0 StatusConnected None)]))
             ''alice'' = Some (exampleWorker 0 StatusConnected None)"
    by (simp add: exampleManager_def NewMultiSessionManager_def)
  have s: "SessionClient.Status (exampleWorker 0 StatusConnected None) = StatusConnected"
    by (simp add: exampleWorker_def)
  from StartSession_connected_idempotent [OF h s] h show ?thesis
    by simp
qed

text \<open>
  C2. If no worker is registered for the session ID and the number of
  registered workers equals the configured maximum (50 in a manager made by
  \<^verbatim>\<open>NewMultiSessionManager\<close>), \<^verbatim>\<open>StartSession\<close> fails with the capacity error; it
  registers nothing and starts no goroutine: the registry map and
  \<^verbatim>\<open>GetSessionCount()\<close> are unchanged.
\<close>

theorem StartSession_at_capacity:
  assumes "fmlookup (sessions w) sid = None"
      and "int (fcard (fmdom (sessions w))) = maxSessions w"
  shows "fst (StartSession w sid) = Some (ErrMaxSessions (maxSessions w))
       \<and> sessions (snd (StartSession w sid)) = sessions w
       \<and> fst (GetSessionCount (snd (StartSession w sid))) = fst (GetSessionCount w)
       \<and> spawned (newActions w (snd (StartSession w sid))) = []
       \<and> snd (StartSession w sid) = emit [MutexLock, MutexUnlock] w"
  using assms
  by (simp add: StartSession_def StartSession_locked_def StartSession_register_def
        GetSessionCount_def emit_def newActions_def)

theorem StartSession_at_capacity_witness:
  "fmlookup (sessions (exampleManager [] fullWorkers)) ''carol'' = None
   \<and> int (fcard (fmdom (sessions (exampleManager [] fullWorkers)))) = 50
   \<and> fst (StartSession (exampleManager [] fullWorkers) ''carol'') = Some (ErrMaxSessions 50)
   \<and> fst (GetSessionCount (snd (StartSession (exampleManager [] fullWorkers) ''carol''))) = 50"
proof -
  have c: "int (fcard (fmdom (sessions (exampleManager [] fullWorkers))))
             = maxSessions (exampleManager [] fullWorkers)"
    by (simp only: fullWorkers_count fullWorkers_max)
  have g: "fst (GetSessionCount (exampleManager [] fullWorkers)) = 50"
    by (simp add: GetSessionCount_def fullWorkers_count)
  from StartSession_at_capacity [OF fullWorkers_carol c] fullWorkers_carol
       fullWorkers_count fullWorkers_max g
  show ?thesis by (simp add: GetSessionCount_def)
qed

text \<open>
  C9. If no worker is registered for the session ID, \<^verbatim>\<open>StopSession\<close> returns
  \<^verbatim>\<open>nil\<close>, never an error, and leaves the registry map unchanged: the call only
  takes and releases the mutex.
\<close>

theorem StopSession_unregistered:
  assumes "fmlookup (sessions w) sid = None"
  shows "fst (StopSession w sid) = None
       \<and> sessions (snd (StopSession w sid)) = sessions w
       \<and> snd (StopSession w sid) = emit [MutexLock, MutexUnlock] w"
  using assms
  by (simp add: StopSession_def cleanupSessionUnsafe_def emit_def)

theorem StopSession_unregistered_witness:
  "fmlookup (sessions (exampleManager [] [])) ''ghost'' = None
   \<and> fst (StopSession (exampleManager [] []) ''ghost'') = None
   \<and> sessions (snd (StopSession (exampleManager [] []) ''ghost''))
       = sessions (exampleManager [] [])"
  using StopSession_unregistered [OF exampleManager_ghost] exampleManager_ghost
  by simp

text \<open>
  C10. If no worker is registered for the session ID, \<^verbatim>\<open>GetSessionStatus\<close>
  returns \<open>disconnected\<close>, not an error or a not-found result: the answer is the
  one given for a registered worker whose status is \<open>disconnected\<close>.
\<close>

theorem GetSessionStatus_unregistered:
  assumes "fmlookup (sessions w) sid = None"
  shows "fst (GetSessionStatus w sid) = StatusDisconnected
       \<and> sessions (snd (GetSessionStatus w sid)) = sessions w
       \<and> (\<forall>w' c. fmlookup (sessions w') sid = Some c
                  \<and> SessionClient.Status c = StatusDisconnected
             \<longrightarrow> fst (GetSessionStatus w' sid) = fst (GetSessionStatus w sid))"
  using assms by (simp add: GetSessionStatus_def)

theorem GetSessionStatus_unregistered_witness:
  "fmlookup (sessions (exampleManager [] [])) ''ghost'' = None
   \<and> fst (GetSessionStatus (exampleManager [] []) ''ghost'') = ''disconnected''
   \<and> fst (GetSessionStatus
            (exampleManager [] [(''ghost'', exampleWorker 0 StatusDisconnected None)]) ''ghost'')
       = fst (GetSessionStatus (exampleManager [] []) ''ghost'')"
proof -
  have r: "fmlookup (sessions
              (exampleManager [] [(''ghost'', exampleWorker 0 StatusDisconnected None)])) ''ghost''
             = Some (exampleWorker 0 StatusDisconnected None)"
    by (simp add: exampleManager_def NewMultiSessionManager_def)
  have s: "SessionClient.Status (exampleWorker 0 StatusDisconnected None) = StatusDisconnected"
    by (simp add: exampleWorker_def)
  from GetSessionStatus_unregistered [OF exampleManager_ghost] r s exampleManager_ghost
  show ?thesis
    by (simp add: StatusDisconnected_def)
qed

section \<open>Status synchroniser\<close>

text \<open>
  C7, as the code has it. \<^verbatim>\<open>updateSessionStatus\<close> looks the session ID up in the
  registry. If a worker is registered for it, the worker's in-memory status
  and last-seen time are set at once and the goroutine that writes to the
  store is started; the function itself only takes the mutex, updates the
  worker and releases the mutex. If no worker is registered, nothing is
  updated and no write is started. The write goroutine, in any state of the
  system and for any outcome of its write, leaves the registry as it is, sends
  exactly one statement (no retry), and when the write fails it ends by
  logging the failure.
\<close>

theorem updateSessionStatus_authoritative:
  "(\<forall>c. fmlookup (sessions w) sid = Some c \<longrightarrow>
        sessions (updateSessionStatus w sid st)
          = fmupd sid (c\<lparr>SessionClient.Status := st, LastSeen := clock w\<rparr>) (sessions w)
      \<and> newActions w (updateSessionStatus w sid st)
          = [MutexLock, Go (StatusWrite sid st), MutexUnlock])
   \<and> (fmlookup (sessions w) sid = None \<longrightarrow>
        updateSessionStatus w sid st = emit [MutexLock, MutexUnlock] w)
   \<and> (\<forall>w'. sessions (statusWrite w' sid st) = sessions w'
          \<and> filter isBlocking (newActions w' (statusWrite w' sid st))
              = [DBUpdateStatus sid (toDomainStatus st)]
          \<and> (fst (UpdateStatus w' sid (toDomainStatus st)) \<noteq> None \<longrightarrow>
               last (trace (statusWrite w' sid st))
                 = Log LError ''Failed to update session status in database''))"
proof (intro conjI allI impI)
  fix c assume r: "fmlookup (sessions w) sid = Some c"
  show "sessions (updateSessionStatus w sid st)
          = fmupd sid (c\<lparr>SessionClient.Status := st, LastSeen := clock w\<rparr>) (sessions w)"
    by (simp add: updateSessionStatus_registered [OF r])
  show "newActions w (updateSessionStatus w sid st)
          = [MutexLock, Go (StatusWrite sid st), MutexUnlock]"
    by (simp add: updateSessionStatus_registered [OF r] newActions_def)
next
  assume "fmlookup (sessions w) sid = None"
  then show "updateSessionStatus w sid st = emit [MutexLock, MutexUnlock] w"
    by (rule updateSessionStatus_unregistered)
next
  fix w'
  show "sessions (statusWrite w' sid st) = sessions w'"
    by (rule statusWrite_sessions)
  show "filter isBlocking (newActions w' (statusWrite w' sid st))
          = [DBUpdateStatus sid (toDomainStatus st)]"
    by (simp add: statusWrite_trace split: option.splits error.splits)
  assume "fst (UpdateStatus w' sid (toDomainStatus st)) \<noteq> None"
  then show "last (trace (statusWrite w' sid st))
               = Log LError ''Failed to update session status in database''"
    by (auto simp: statusWrite_def split: prod.splits option.splits)
qed

theorem updateSessionStatus_authoritative_witness:
  "fmlookup (sessions (aliceManager [])) ''alice'' = Some (exampleWorker 0 StatusConnecting None)
   \<and> fmlookup (sessions (updateSessionStatus (aliceManager []) ''alice'' StatusConnected)) ''alice''
       = Some ((exampleWorker 0 StatusConnecting None)
                 \<lparr>SessionClient.Status := StatusConnected, LastSeen := 42\<rparr>)
   \<and> fmlookup (sessions daveStopped) ''dave'' = None
   \<and> updateSessionStatus daveStopped ''dave'' StatusDisconnected
       = emit [MutexLock, MutexUnlock] daveStopped
   \<and> fst (UpdateStatus (aliceManager [True]) ''alice'' (toDomainStatus StatusConnected)) \<noteq> None
   \<and> sessions (statusWrite (aliceManager [True]) ''alice'' StatusConnected)
       = sessions (aliceManager [True])
   \<and> last (trace (statusWrite (aliceManager [True]) ''alice'' StatusConnected))
       = Log LError ''Failed to update session status in database''"
proof -
  have h: "fmlookup (sessions (aliceManager [])) ''alice''
             = Some (exampleWorker 0 StatusConnecting None)"
    by (simp add: aliceManager_def exampleManager_def NewMultiSessionManager_def)
  have c: "clock (aliceManager []) = 42"
    by (simp add: aliceManager_def)
  have d: "fmlookup (sessions daveStopped) ''dave'' = None"
    by code_simp
  have u: "fst (UpdateStatus (aliceManager [True]) ''alice'' (toDomainStatus StatusConnected))
             \<noteq> None"
    by (simp add: UpdateStatus_def dbExec_def aliceManager_def Let_def)
  from updateSessionStatus_authoritative [of "aliceManager []" "''alice''" StatusConnected]
       updateSessionStatus_authoritative [of daveStopped "''dave''" StatusDisconnected]
       h c d u
  show ?thesis by simp
qed

text \<open>
  C7 as stated fails. The worker of \<open>dave\<close> is blocked in its \<^verbatim>\<open>select\<close> with
  status \<open>connecting\<close>; \<^verbatim>\<open>StopSession\<close> removes it from the registry and sends
  the kill signal; the goroutine wakes up, disconnects and makes its closing
  transition to \<open>disconnected\<close>: no worker is registered any more, so no status
  and no last-seen time is set and no store write is started.
\<close>

theorem updateSessionStatus_closing_counterexample:
  "fst (handleSessionConnection (exampleEnv [] (Returns None)) daveStarted False ''dave''
          daveWorker) = Blocked
   \<and> statusOf daveRunning ''dave'' = Some ''connecting''
   \<and> fst (waitForKill daveStopped False ''dave'' daveWorker 1000) = Finished
   \<and> newActions daveStopped (snd (waitForKill daveStopped False ''dave'' daveWorker 1000))
      = [Log LInfo ''Session received kill signal'', ClientDisconnect 1000,
         MutexLock, MutexUnlock]
   \<and> statusOf (snd (waitForKill daveStopped False ''dave'' daveWorker 1000)) ''dave'' = None
   \<and> statusOf (snd (waitForKill daveStopped False ''dave'' daveWorker 1000)) ''dave''
      \<noteq> Some StatusDisconnected
   \<and> spawned (newActions daveStopped
        (snd (waitForKill daveStopped False ''dave'' daveWorker 1000))) = []
   \<and> sessions (updateSessionStatus daveStopped ''dave'' StatusDisconnected) = sessions daveStopped
   \<and> newActions daveStopped (updateSessionStatus daveStopped ''dave'' StatusDisconnected)
      = [MutexLock, MutexUnlock]"
  by code_simp

section \<open>Startup resumer\<close>

text \<open>
  C6. \<^verbatim>\<open>connectOnStartup\<close> starts one goroutine for each session that the store
  returns with status \<open>connected\<close> and a non-empty \<^verbatim>\<open>WAJID\<close>, in the order
  returned, and none for any other session (none at all when the query
  fails). In terms of the table: the sessions started are, counted with
  multiplicity, the rows whose status is \<open>connected\<close> and whose \<^verbatim>\<open>WAJID\<close> is not
  empty. What these goroutines do, run from any state, is to call
  \<^verbatim>\<open>StartSession\<close> once for each of those sessions and for no other, an error of
  the call being logged.
\<close>

theorem connectOnStartup_resumes:
  "spawned (newActions w (connectOnStartup w)) =
     (case fst (GetConnectedSessions (emit [Sleep 2000] w)) of
        Inl err \<Rightarrow> []
      | Inr ss \<Rightarrow> map (\<lambda>s. StartSessionTask (Session.ID s))
                   (filter (\<lambda>s. Session.Status s = domain_StatusConnected \<and> WAJID s \<noteq> []) ss))
   \<and> mset (spawned (newActions w (connectOnStartup w))) =
     (case faults (sessionRepo w) of
        True # fs \<Rightarrow> {#}
      | _ \<Rightarrow> image_mset (\<lambda>s. StartSessionTask (Session.ID s))
              (filter_mset (\<lambda>s. Session.Status s = domain_StatusConnected \<and> WAJID s \<noteq> [])
                 (mset (rows (sessionRepo w)))))
   \<and> (\<forall>v. runStartSessionTasks (spawned (newActions w (connectOnStartup w))) v =
        (case fst (GetConnectedSessions (emit [Sleep 2000] w)) of
           Inl err \<Rightarrow> v
         | Inr ss \<Rightarrow>
             foldl (\<lambda>v s. case StartSession v (Session.ID s) of
                             (None, v1) \<Rightarrow> v1
                           | (Some err, v1) \<Rightarrow>
                               emit [Log LError ''Failed to reconnect session on startup''] v1)
                   v
                   (filter (\<lambda>s. Session.Status s = domain_StatusConnected \<and> WAJID s \<noteq> []) ss)))"
proof (intro conjI allI)
  show "spawned (newActions w (connectOnStartup w)) =
     (case fst (GetConnectedSessions (emit [Sleep 2000] w)) of
        Inl err \<Rightarrow> []
      | Inr ss \<Rightarrow> map (\<lambda>s. StartSessionTask (Session.ID s))
                   (filter (\<lambda>s. Session.Status s = domain_StatusConnected \<and> WAJID s \<noteq> []) ss))"
    by (rule connectOnStartup_spawned)
  show "mset (spawned (newActions w (connectOnStartup w))) =
     (case faults (sessionRepo w) of
        True # fs \<Rightarrow> {#}
      | _ \<Rightarrow> image_mset (\<lambda>s. StartSessionTask (Session.ID s))
              (filter_mset (\<lambda>s. Session.Status s = domain_StatusConnected \<and> WAJID s \<noteq> [])
                 (mset (rows (sessionRepo w)))))"
    by (rule connectOnStartup_rows)
next
  fix v
  show "runStartSessionTasks (spawned (newActions w (connectOnStartup w))) v =
        (case fst (GetConnectedSessions (emit [Sleep 2000] w)) of
           Inl err \<Rightarrow> v
         | Inr ss \<Rightarrow>
             foldl (\<lambda>v s. case StartSession v (Session.ID s) of
                             (None, v1) \<Rightarrow> v1
                           | (Some err, v1) \<Rightarrow>
                               emit [Log LError ''Failed to reconnect session on startup''] v1)
                   v
                   (filter (\<lambda>s. Session.Status s = domain_StatusConnected \<and> WAJID s \<noteq> []) ss))"
    unfolding connectOnStartup_spawned
    by (cases "fst (GetConnectedSessions (emit [Sleep 2000] w))")
       (simp_all add: runStartSessionTasks_map)
qed

theorem connectOnStartup_resumes_witness:
  "spawned (newActions resumeManager (connectOnStartup resumeManager)) = [StartSessionTask ''s1'']
   \<and> runStartSessionTasks (spawned (newActions resumeManager (connectOnStartup resumeManager)))
        (connectOnStartup resumeManager)
      = snd (StartSession (connectOnStartup resumeManager) ''s1'')
   \<and> statusOf
        (runStartSessionTasks (spawned (newActions resumeManager (connectOnStartup resumeManager)))
           (connectOnStartup resumeManager)) ''s1'' = Some StatusDisconnected
   \<and> statusOf
        (runStartSessionTasks (spawned (newActions resumeManager (connectOnStartup resumeManager)))
           (connectOnStartup resumeManager)) ''s2'' = None"
proof -
  have g: "fst (GetConnectedSessions (emit [Sleep 2000] resumeManager))
             = Inr [exampleRow ''s1'' domain_StatusConnected ''999@ext'' []]"
    by (simp add: GetConnectedSessions_def GetByStatus_def dbExec_def emit_def Let_def
          resumeManager_def exampleManager_def NewMultiSessionManager_def exampleRow_def
          status_defs)
  have f: "fst (StartSession (connectOnStartup resumeManager) ''s1'') = None"
    and a: "statusOf (snd (StartSession (connectOnStartup resumeManager) ''s1'')) ''s1''
              = Some StatusDisconnected"
    and b: "statusOf (snd (StartSession (connectOnStartup resumeManager) ''s1'')) ''s2'' = None"
    by code_simp+
  have "\<forall>v. runStartSessionTasks
             (spawned (newActions resumeManager (connectOnStartup resumeManager))) v
           = (case StartSession v ''s1'' of
                (None, v1) \<Rightarrow> v1
              | (Some err, v1) \<Rightarrow>
                  emit [Log LError ''Failed to reconnect session on startup''] v1)"
    using connectOnStartup_resumes [of resumeManager, THEN conjunct2, THEN conjunct2]
    unfolding g by (simp add: exampleRow_def status_defs)
  then have "runStartSessionTasks
             (spawned (newActions resumeManager (connectOnStartup resumeManager)))
             (connectOnStartup resumeManager)
           = (case StartSession (connectOnStartup resumeManager) ''s1'' of
                (None, v1) \<Rightarrow> v1
              | (Some err, v1) \<Rightarrow>
                  emit [Log LError ''Failed to reconnect session on startup''] v1)"
    by (rule spec)
  with f have r: "runStartSessionTasks
             (spawned (newActions resumeManager (connectOnStartup resumeManager)))
             (connectOnStartup resumeManager)
           = snd (StartSession (connectOnStartup resumeManager) ''s1'')"
    by (cases "StartSession (connectOnStartup resumeManager) ''s1''") simp
  have s: "spawned (newActions resumeManager (connectOnStartup resumeManager))
             = [StartSessionTask ''s1'']"
    using connectOnStartup_resumes [of resumeManager, THEN conjunct1]
    unfolding g by (simp add: exampleRow_def status_defs)
  from s r a b show ?thesis by (simp only: simp_thms)
qed

section \<open>Pairing artifact\<close>

text \<open>
  C5. For a session in the middle of pairing (its worker registered and not
  connected) whose row holds a non-empty pairing payload, \<^verbatim>\<open>GenerateQRCode\<close>
  returns that stored payload, and so does a second request made after it:
  both results are the same string. Neither request starts a generation
  goroutine, and the row and the registry are left as they were. (The two
  reads of the row are taken to succeed.)
\<close>

theorem GenerateQRCode_cached:
  assumes "fmlookup (sessions w) sid = Some c"
      and "SessionClient.Status c \<noteq> StatusConnected"
      and "find (\<lambda>s. Session.ID s = sid) (rows (sessionRepo w)) = Some session"
      and "QRCode session \<noteq> []"
      and "True \<notin> set (take 2 (faults (sessionRepo w)))"
  shows "fst (GenerateQRCode m w sid) = Inr (QRCode session)
       \<and> fst (GenerateQRCode m' (snd (GenerateQRCode m w sid)) sid) = Inr (QRCode session)
       \<and> spawned (newActions w (snd (GenerateQRCode m' (snd (GenerateQRCode m w sid)) sid))) = []
       \<and> rows (sessionRepo (snd (GenerateQRCode m' (snd (GenerateQRCode m w sid)) sid)))
           = rows (sessionRepo w)
       \<and> sessions (snd (GenerateQRCode m' (snd (GenerateQRCode m w sid)) sid)) = sessions w"
proof -
  let ?w' = "emit [MutexRLock, MutexRUnlock, DBSelectByID sid, Log LInfo ''Returning existing QR code'']
              (w\<lparr>sessionRepo := (sessionRepo w)\<lparr>faults := tl (faults (sessionRepo w))\<rparr>\<rparr>)"
  have f1: "True \<notin> set (take 1 (faults (sessionRepo w)))"
    using assms(5) by (cases "faults (sessionRepo w)") auto
  have first: "GenerateQRCode m w sid = (Inr (QRCode session), ?w')"
    by (rule GenerateQRCode_cached_step [OF assms(1-4) f1])
  have f2: "True \<notin> set (take 1 (faults (sessionRepo ?w')))"
    using assms(5) by (cases "faults (sessionRepo w)") (auto simp: emit_def take_Suc_conv_app_nth numeral_2_eq_2 split: list.splits)
  have a: "fmlookup (sessions ?w') sid = Some c" using assms(1) by (simp add: emit_def)
  have b: "find (\<lambda>s. Session.ID s = sid) (rows (sessionRepo ?w')) = Some session"
    using assms(3) by (simp add: emit_def)
  have second: "GenerateQRCode m' ?w' sid =
           (Inr (QRCode session),
            emit [MutexRLock, MutexRUnlock, DBSelectByID sid, Log LInfo ''Returning existing QR code'']
              (?w'\<lparr>sessionRepo := (sessionRepo ?w')\<lparr>faults := tl (faults (sessionRepo ?w'))\<rparr>\<rparr>))"
    by (rule GenerateQRCode_cached_step [OF a assms(2) b assms(4) f2])
  show ?thesis
    unfolding first snd_conv fst_conv second
    by (simp add: emit_def newActions_def)
qed

theorem GenerateQRCode_cached_witness:
  "fst (GenerateQRCode id (aliceManager []) ''alice'') = Inr ''data:image/png;base64,QUJD''
   \<and> fst (GenerateQRCode id (snd (GenerateQRCode id (aliceManager []) ''alice'')) ''alice'')
       = Inr ''data:image/png;base64,QUJD''"
proof -
  have a: "fmlookup (sessions (aliceManager [])) ''alice''
             = Some (exampleWorker 0 StatusConnecting None)"
    by (simp add: aliceManager_def exampleManager_def NewMultiSessionManager_def)
  have b: "SessionClient.Status (exampleWorker 0 StatusConnecting None) \<noteq> StatusConnected"
    by (simp add: exampleWorker_def status_defs)
  have c: "find (\<lambda>s. Session.ID s = ''alice'') (rows (sessionRepo (aliceManager [])))
             = Some (exampleRow ''alice'' domain_StatusConnecting [] ''data:image/png;base64,QUJD'')"
    by (simp add: aliceManager_def exampleRow_def)
  have d: "QRCode (exampleRow ''alice'' domain_StatusConnecting [] ''data:image/png;base64,QUJD'')
             \<noteq> []"
    by (simp add: exampleRow_def)
  have e: "True \<notin> set (take 2 (faults (sessionRepo (aliceManager []))))"
    by (simp add: aliceManager_def)
  from GenerateQRCode_cached [OF a b c d e, of id id] show ?thesis
    by (simp add: exampleRow_def)
qed

section \<open>Connection worker\<close>

lemma handleSessionConnection_run_exits:
  "(case handleSessionConnection env w ctxDone sid sessionClient of
      (Finished, w') \<Rightarrow>
        (\<exists>c. Client sessionClient = Some c \<and> ClientDisconnect c \<in> set (newActions w w'))
        \<and> statusOf w' sid = map_option (\<lambda>x. StatusDisconnected) (statusOf w sid)
    | (ConnectFailed, w') \<Rightarrow>
        list_all (\<lambda>a. \<not> isDisconnect a) (newActions w w')
        \<and> statusOf w' sid = map_option (\<lambda>x. StatusError) (statusOf w sid)
    | (Recovered, w') \<Rightarrow>
        list_all (\<lambda>a. \<not> isDisconnect a) (newActions w w')
        \<and> last (trace w') = Log LError ''Panic in session connection handler''
        \<and> statusOf w' sid = map_option (\<lambda>x. StatusConnecting) (statusOf w sid)
    | (Blocked, w') \<Rightarrow>
        list_all (\<lambda>a. \<not> isDisconnect a) (newActions w w')
        \<and> statusOf w' sid = map_option (\<lambda>x. StatusConnecting) (statusOf w sid)
    | (Panicked, w') \<Rightarrow> False)"
proof -
  obtain ex w1 where b: "handleSessionConnection_body env w ctxDone sid sessionClient = (ex, w1)"
    by (cases "handleSessionConnection_body env w ctxDone sid sessionClient")
  have l: "\<not> isDisconnect (Log x y)" for x y by (simp add: isDisconnect_def)
  from handleSessionConnection_body_result [OF b] show ?thesis
    by (cases ex)
       (auto simp: handleSessionConnection_def b performs_newActions l
             dest: performs_emit_right [where acts = "[Log LError ''Panic in session connection handler'']"]
                   performs_newActions)
qed

text \<open>
  C3, as the code has it. A run of \<^verbatim>\<open>handleSessionConnection\<close> ends in one of
  four ways. Through the wait for the kill signal or the cancelled context
  (\<open>Finished\<close>): the client is disconnected before the function returns, and
  then \<^verbatim>\<open>updateSessionStatus\<close> is called with \<open>disconnected\<close>, which sets the
  status of whatever worker is registered for the session ID at that moment,
  if there is one. By the early return after a failed direct connect
  (\<open>ConnectFailed\<close>): \<^verbatim>\<open>updateSessionStatus\<close> is called with \<open>error\<close>, to the
  same effect, and no disconnect is made. By a panic (\<open>Recovered\<close>): the
  deferred function recovers and logs it as its last action; no disconnect is
  made and the status of a registered worker stays \<open>connecting\<close>, as set at the
  start of the run. Or it stays blocked (\<open>Blocked\<close>), with that status and no
  disconnect. No panic leaves the function.

  A blocked goroutine that wakes up in a later state goes through the same
  wait: it either stays blocked or disconnects the client and calls
  \<^verbatim>\<open>updateSessionStatus\<close> as above; when no worker is registered for the ID
  by then, the registry is left as it is and no store write is started. That
  is the case after \<^verbatim>\<open>StopSession\<close>, which leaves no worker registered for the
  ID it stops.
\<close>

theorem handleSessionConnection_exits:
  "(case handleSessionConnection env w ctxDone sid sessionClient of
      (Finished, w') \<Rightarrow>
        (\<exists>c. Client sessionClient = Some c \<and> ClientDisconnect c \<in> set (newActions w w'))
        \<and> statusOf w' sid = map_option (\<lambda>x. StatusDisconnected) (statusOf w sid)
    | (ConnectFailed, w') \<Rightarrow>
        list_all (\<lambda>a. \<not> isDisconnect a) (newActions w w')
        \<and> statusOf w' sid = map_option (\<lambda>x. StatusError) (statusOf w sid)
    | (Recovered, w') \<Rightarrow>
        list_all (\<lambda>a. \<not> isDisconnect a) (newActions w w')
        \<and> last (trace w') = Log LError ''Panic in session connection handler''
        \<and> statusOf w' sid = map_option (\<lambda>x. StatusConnecting) (statusOf w sid)
    | (Blocked, w') \<Rightarrow>
        list_all (\<lambda>a. \<not> isDisconnect a) (newActions w w')
        \<and> statusOf w' sid = map_option (\<lambda>x. StatusConnecting) (statusOf w sid)
    | (Panicked, w') \<Rightarrow> False)
   \<and> (\<forall>w2 c.
        (case waitForKill w2 ctxDone sid sessionClient c of
           (Finished, w3) \<Rightarrow>
             ClientDisconnect c \<in> set (newActions w2 w3)
             \<and> statusOf w3 sid = map_option (\<lambda>x. StatusDisconnected) (statusOf w2 sid)
             \<and> (statusOf w2 sid = None \<longrightarrow>
                  sessions w3 = sessions w2 \<and> spawned (newActions w2 w3) = [])
         | (Blocked, w3) \<Rightarrow> w3 = w2
         | (ex, w3) \<Rightarrow> False))
   \<and> statusOf (snd (StopSession w sid)) sid = None"
  by (intro conjI allI) (rule handleSessionConnection_run_exits waitForKill_exits StopSession_deregisters)+

theorem handleSessionConnection_exits_witness:
  "fmlookup (sessions daveStarted) ''dave'' = Some daveWorker
   \<and> spawned (newActions daveManager daveStarted) = [HandleSessionConnection ''dave'' daveWorker]
   \<and> fst (handleSessionConnection (exampleEnv [] (Returns None)) daveStarted False ''dave''
            daveWorker) = Blocked
   \<and> statusOf daveRunning ''dave'' = Some StatusConnecting
   \<and> statusOf daveStopped ''dave'' = None
   \<and> fst (waitForKill daveStopped False ''dave'' daveWorker 1000) = Finished
   \<and> ClientDisconnect 1000 \<in> set (newActions daveStopped
        (snd (waitForKill daveStopped False ''dave'' daveWorker 1000)))
   \<and> statusOf (snd (waitForKill daveStopped False ''dave'' daveWorker 1000)) ''dave'' = None
   \<and> spawned (newActions daveStopped
        (snd (waitForKill daveStopped False ''dave'' daveWorker 1000))) = []"
proof -
  let ?env = "exampleEnv [] (Returns None)"
  have a: "fmlookup (sessions daveStarted) ''dave'' = Some daveWorker"
    and b: "spawned (newActions daveManager daveStarted)
              = [HandleSessionConnection ''dave'' daveWorker]"
    and c: "fst (handleSessionConnection ?env daveStarted False ''dave'' daveWorker) = Blocked"
    and d: "fst (waitForKill daveStopped False ''dave'' daveWorker 1000) = Finished"
    and e: "statusOf daveStarted ''dave'' = Some StatusDisconnected"
    by code_simp+
  note t1 = handleSessionConnection_exits [where env = ?env and w = daveStarted
      and ctxDone = False and sid = "''dave''" and sessionClient = daveWorker]
  note t2 = handleSessionConnection_exits [where env = ?env and w = daveRunning
      and ctxDone = False and sid = "''dave''" and sessionClient = daveWorker]
  from t1 [THEN conjunct1] c e have r: "statusOf daveRunning ''dave'' = Some StatusConnecting"
    by (cases "handleSessionConnection ?env daveStarted False ''dave'' daveWorker")
       (simp add: daveRunning_def)
  from t2 [THEN conjunct2, THEN conjunct2] have s: "statusOf daveStopped ''dave'' = None"
    by (simp add: daveStopped_def)
  have "\<forall>w2 c.
     (case waitForKill w2 False ''dave'' daveWorker c of
       (Finished, w3) \<Rightarrow>
         ClientDisconnect c \<in> set (newActions w2 w3)
         \<and> statusOf w3 ''dave'' = map_option (\<lambda>x. StatusDisconnected) (statusOf w2 ''dave'')
         \<and> (statusOf w2 ''dave'' = None \<longrightarrow>
              sessions w3 = sessions w2 \<and> spawned (newActions w2 w3) = [])
     | (Blocked, w3) \<Rightarrow> w3 = w2
     | (ex, w3) \<Rightarrow> False)"
    by (rule t2 [THEN conjunct2, THEN conjunct1])
  then have "\<forall>c.
     (case waitForKill daveStopped False ''dave'' daveWorker c of
       (Finished, w3) \<Rightarrow>
         ClientDisconnect c \<in> set (newActions daveStopped w3)
         \<and> statusOf w3 ''dave''
             = map_option (\<lambda>x. StatusDisconnected) (statusOf daveStopped ''dave'')
         \<and> (statusOf daveStopped ''dave'' = None \<longrightarrow>
              sessions w3 = sessions daveStopped \<and> spawned (newActions daveStopped w3) = [])
     | (Blocked, w3) \<Rightarrow> w3 = daveStopped
     | (ex, w3) \<Rightarrow> False)"
    by (rule spec)
  then have
    "case waitForKill daveStopped False ''dave'' daveWorker 1000 of
       (Finished, w3) \<Rightarrow>
         ClientDisconnect 1000 \<in> set (newActions daveStopped w3)
         \<and> statusOf w3 ''dave''
             = map_option (\<lambda>x. StatusDisconnected) (statusOf daveStopped ''dave'')
         \<and> (statusOf daveStopped ''dave'' = None \<longrightarrow>
              sessions w3 = sessions daveStopped \<and> spawned (newActions daveStopped w3) = [])
     | (Blocked, w3) \<Rightarrow> w3 = daveStopped
     | (ex, w3) \<Rightarrow> False"
    by (rule spec)
  with d s
  have k: "ClientDisconnect 1000 \<in> set (newActions daveStopped
             (snd (waitForKill daveStopped False ''dave'' daveWorker 1000)))
         \<and> statusOf (snd (waitForKill daveStopped False ''dave'' daveWorker 1000)) ''dave'' = None
         \<and> spawned (newActions daveStopped
             (snd (waitForKill daveStopped False ''dave'' daveWorker 1000))) = []"
    by (cases "waitForKill daveStopped False ''dave'' daveWorker 1000") simp
  from a b c r s d k show ?thesis by simp
qed

text \<open>
  C3 as stated fails. A panic in \<^verbatim>\<open>Connect\<close> during QR pairing of \<open>alice\<close>: the
  goroutine exits after logging the panic, without a disconnect, and the
  status is \<open>connecting\<close>, not \<open>error\<close>. A failed direct connect of \<open>bob\<close>:
  the goroutine exits with status \<open>error\<close>, again without a disconnect.
\<close>

theorem handleSessionConnection_exit_counterexample:
  "fst (handleSessionConnection (exampleEnv [] Panics) (aliceManager []) False ''alice''
          (exampleWorker 0 StatusConnecting None)) = Recovered
   \<and> newActions (aliceManager [])
        (snd (handleSessionConnection (exampleEnv [] Panics) (aliceManager []) False ''alice''
               (exampleWorker 0 StatusConnecting None)))
      = [MutexLock, Go (StatusWrite ''alice'' ''connecting''), MutexUnlock,
         ClientAddEventHandler 0,
         Log LInfo ''New device, QR code authentication required'',
         ClientGetQRChannel 0, ClientConnect 0,
         Log LError ''Panic in session connection handler'']
   \<and> ClientDisconnect 0 \<notin> set (newActions (aliceManager [])
        (snd (handleSessionConnection (exampleEnv [] Panics) (aliceManager []) False ''alice''
               (exampleWorker 0 StatusConnecting None))))
   \<and> statusOf (snd (handleSessionConnection (exampleEnv [] Panics) (aliceManager []) False
                      ''alice'' (exampleWorker 0 StatusConnecting None))) ''alice''
      = Some ''connecting''
   \<and> statusOf (snd (handleSessionConnection (exampleEnv [] Panics) (aliceManager []) False
                      ''alice'' (exampleWorker 0 StatusConnecting None))) ''alice''
      \<noteq> Some StatusError
   \<and> fst (handleSessionConnection (exampleEnv [] (Returns (Some ErrExternal))) (bobManager [])
            False ''bob'' bobWorker) = ConnectFailed
   \<and> newActions (bobManager [])
        (snd (handleSessionConnection (exampleEnv [] (Returns (Some ErrExternal))) (bobManager [])
               False ''bob'' bobWorker))
      = [MutexLock, Go (StatusWrite ''bob'' ''connecting''), MutexUnlock,
         ClientAddEventHandler 10,
         Log LInfo ''Device has stored ID, attempting direct connection'',
         ClientConnect 10, Log LError ''Failed to connect to WhatsApp'',
         MutexLock, Go (StatusWrite ''bob'' ''error''), MutexUnlock]
   \<and> ClientDisconnect 10 \<notin> set (newActions (bobManager [])
        (snd (handleSessionConnection (exampleEnv [] (Returns (Some ErrExternal))) (bobManager [])
               False ''bob'' bobWorker)))"
  by code_simp

section \<open>Pairing events\<close>




section \<open>Locking discipline\<close>

text \<open>
  C8, as the code has it. \<^verbatim>\<open>StartSession\<close> takes the mutex first and releases it
  last, with no other mutex operation between, and never calls \<^verbatim>\<open>Connect\<close> on a
  client. Unless it stops at a connected worker or at the session limit, it
  reads the session's row from the database between the two: a blocking call
  made while the mutex is held. The external connect is made only by the
  goroutines: in a run of \<^verbatim>\<open>handleSessionConnection\<close> or of
  \<^verbatim>\<open>handleQRCodeGeneration\<close> no blocking call is made while the mutex is held.
\<close>

theorem StartSession_lock_discipline:
  "(\<exists>mid. newActions w (snd (StartSession w sid)) = MutexLock # mid @ [MutexUnlock]
          \<and> list_all (\<lambda>a. \<not> isMutex a \<and> \<not> isConnect a) mid
          \<and> (statusOf w sid \<noteq> Some StatusConnected
               \<and> int (fcard (fmdom (fmdrop sid (sessions w)))) < maxSessions w
             \<longrightarrow> DBSelectByID sid \<in> set mid
                 \<and> heldAcross False (newActions w (snd (StartSession w sid)))))
   \<and> \<not> heldAcross False (newActions w (snd (handleSessionConnection env w ctxDone sid sc)))
   \<and> \<not> heldAcross False (newActions w (snd (handleQRCodeGeneration env w sid sc)))"
proof (intro conjI)
  let ?w0 = "emit [MutexLock] w"
  from StartSession_trace [of w sid] obtain mid where
    n: "newActions w (snd (StartSession w sid)) = MutexLock # mid @ [MutexUnlock]"
    and a: "list_all (\<lambda>a. \<not> isMutex a \<and> \<not> isConnect a) mid"
    and m: "mid = newActions ?w0 (snd (StartSession_locked ?w0 sid))" by blast
  have nm: "list_all (\<lambda>a. \<not> isMutex a) mid" using a by (simp add: list_all_iff)
  have "DBSelectByID sid \<in> set mid \<and> heldAcross False (newActions w (snd (StartSession w sid)))"
    if "statusOf w sid \<noteq> Some StatusConnected
          \<and> int (fcard (fmdom (fmdrop sid (sessions w)))) < maxSessions w"
  proof -
    from that have "statusOf ?w0 sid \<noteq> Some StatusConnected"
      and "int (fcard (fmdom (fmdrop sid (sessions ?w0)))) < maxSessions ?w0" by simp_all
    from StartSession_locked_reads [OF this] m have d: "DBSelectByID sid \<in> set mid" by simp
    then have "\<exists>a \<in> set mid. isBlocking a" by (rule bexI [rotated]) simp
    then have "heldAcross True mid" using nm by (simp add: no_mutex_held)
    then have "heldAcross False (MutexLock # mid @ [MutexUnlock])"
      by (simp add: heldAcross_append)
    with d n show ?thesis by simp
  qed
  with n a show "\<exists>mid. newActions w (snd (StartSession w sid)) = MutexLock # mid @ [MutexUnlock]
          \<and> list_all (\<lambda>a. \<not> isMutex a \<and> \<not> isConnect a) mid
          \<and> (statusOf w sid \<noteq> Some StatusConnected
               \<and> int (fcard (fmdom (fmdrop sid (sessions w)))) < maxSessions w
             \<longrightarrow> DBSelectByID sid \<in> set mid
                 \<and> heldAcross False (newActions w (snd (StartSession w sid))))"
    by blast
next
  from handleSessionConnection_lockSafe [of w env ctxDone sid sc]
  show "\<not> heldAcross False (newActions w (snd (handleSessionConnection env w ctxDone sid sc)))"
    by (simp add: lockSafe_def)
next
  obtain ex w' where q: "handleQRCodeGeneration env w sid sc = (ex, w')"
    by (cases "handleQRCodeGeneration env w sid sc")
  from quiet_lockSafe [OF handleQRCodeGeneration_result(1) [OF q]] q
  show "\<not> heldAcross False (newActions w (snd (handleQRCodeGeneration env w sid sc)))"
    by (simp add: lockSafe_def)
qed

theorem StartSession_lock_discipline_witness:
  "statusOf carolManager ''carol'' \<noteq> Some StatusConnected
   \<and> int (fcard (fmdom (fmdrop ''carol'' (sessions carolManager)))) < maxSessions carolManager
   \<and> heldAcross False (newActions carolManager (snd (StartSession carolManager ''carol'')))"
proof -
  have a: "statusOf carolManager ''carol'' \<noteq> Some StatusConnected"
    by code_simp
  have b: "int (fcard (fmdom (fmdrop ''carol'' (sessions carolManager)))) < maxSessions carolManager"
    by code_simp
  from StartSession_lock_discipline [of carolManager "''carol''", THEN conjunct1] a b
  show ?thesis by blast
qed

text \<open>
  C8 as stated fails. \<^verbatim>\<open>StartSession\<close> for \<open>carol\<close>, who has a row and no
  worker: the database read \<^verbatim>\<open>GetByID\<close> comes after \<open>MutexLock\<close> and before
  \<open>MutexUnlock\<close>.
\<close>

theorem StartSession_lock_counterexample:
  "newActions carolManager (snd (StartSession carolManager ''carol''))
     = [MutexLock, DBSelectByID ''carol'', Log LInfo ''Created new WhatsApp device'',
        NewClient 1000,
        Go (HandleSessionConnection ''carol''
              \<lparr>Client = Some 1000, Device = Some (NewDevice None), KillChannel = 1001,
               SessionClient.Status = ''disconnected'', LastSeen = 0\<rparr>),
        Log LInfo ''Session started'', MutexUnlock]
   \<and> isBlocking (DBSelectByID ''carol'')
   \<and> heldAcross False (newActions carolManager (snd (StartSession carolManager ''carol'')))"
  by code_simp

end
